theory Spec2Isabelle
  imports Main
begin

section \<open>The PowerShell completion provider of the terminal suggest contribution\<close>

text \<open>
  A shallow embedding of \<^verbatim>\<open>pwshCompletionProvider.ts\<close>. JavaScript strings are
  modelled as \<^typ>\<open>string\<close>: one \<^typ>\<open>char\<close> per code unit, code units below 256.
\<close>

subsection \<open>Regular expressions used by the normalizer\<close>

text \<open>
  The source tests labels with regular-expression literals. They are kept as data and run
  by one backtracking matcher, so each literal of the source is one term here. The
  constructors are the constructs the literals use: the assertions \<^verbatim>\<open>^\<close> and
  \<^verbatim>\<open>$\<close> (no \<^verbatim>\<open>m\<close> flag: start and end of the input), a character class, sequence,
  \<^verbatim>\<open>?\<close>, the bounded repetition \<^verbatim>\<open>{lo,hi}\<close>, and \<^verbatim>\<open>+\<close> on a class.
\<close>

datatype regex =
    Bol
  | Eol
  | Cls "char \<Rightarrow> bool"
  | Seq regex regex
  | Opt regex
  | Rep nat nat regex
  | Plus "char \<Rightarrow> bool"

text \<open>
  A matcher state is the rest of the input and whether it is still the whole input.
  \<open>rmatch r st\<close> lists the states in which a match of \<open>r\<close> begun at \<open>st\<close> can end, in
  the order backtracking tries them (quantifiers are greedy).
\<close>

fun repeat :: "('s \<Rightarrow> 's list) \<Rightarrow> nat \<Rightarrow> nat \<Rightarrow> 's \<Rightarrow> 's list" where
  "repeat f lo 0 st = (if lo = 0 then [st] else [])"
| "repeat f lo (Suc hi) st =
     concat (map (repeat f (lo - 1) hi) (f st)) @ (if lo = 0 then [st] else [])"

fun rmatch :: "regex \<Rightarrow> bool \<times> string \<Rightarrow> (bool \<times> string) list" where
  "rmatch Bol (b, s) = (if b then [(b, s)] else [])"
| "rmatch Eol (b, s) = (if s = [] then [(b, s)] else [])"
| "rmatch (Cls p) (b, s) = (case s of [] \<Rightarrow> [] | c # cs \<Rightarrow> if p c then [(False, cs)] else [])"
| "rmatch (Seq r1 r2) st = concat (map (rmatch r2) (rmatch r1 st))"
| "rmatch (Opt r) st = rmatch r st @ [st]"
| "rmatch (Rep lo hi r) st = repeat (rmatch r) lo hi st"
| "rmatch (Plus p) (b, s) =
     map (\<lambda>k. (False, drop k s)) (rev [1 ..< Suc (length (takeWhile p s))])"

text \<open>The leftmost match: its text, or \<open>None\<close> where the source gets \<^verbatim>\<open>null\<close>.\<close>

fun rsearch :: "regex \<Rightarrow> bool \<Rightarrow> string \<Rightarrow> string option" where
  "rsearch r b [] =
     (case rmatch r (b, []) of
        (b', s') # _ \<Rightarrow> Some []
      | [] \<Rightarrow> None)"
| "rsearch r b (c # cs) =
     (case rmatch r (b, c # cs) of
        (b', s') # _ \<Rightarrow> Some (take (length (c # cs) - length s') (c # cs))
      | [] \<Rightarrow> rsearch r False cs)"

definition match :: "string \<Rightarrow> regex \<Rightarrow> string option" where
  "match s r = rsearch r True s"

definition isSeparator :: "char \<Rightarrow> bool" where
  "isSeparator c = (c = CHR 0x5C \<or> c = CHR ''/'')"

definition isExtChar :: "char \<Rightarrow> bool" where
  \<comment> \<open>\<^verbatim>\<open>[a-z0-9]\<close> under the \<^verbatim>\<open>i\<close> flag\<close>
  "isExtChar c = (c \<in> set ''abcdefghijklmnopqrstuvwxyzABCDEFGHIJKLMNOPQRSTUVWXYZ0123456789'')"

definition rx_history :: regex where
  \<comment> \<open>\<^verbatim>\<open>/^[\-+]$/\<close>\<close>
  "rx_history = Seq Bol (Seq (Cls (\<lambda>c. c = CHR ''-'' \<or> c = CHR ''+'')) Eol)"

definition rx_dots :: regex where
  \<comment> \<open>\<^verbatim>\<open>/^\.\.?$/\<close>\<close>
  "rx_dots = Seq Bol (Seq (Cls (\<lambda>c. c = CHR ''.'')) (Seq (Opt (Cls (\<lambda>c. c = CHR ''.''))) Eol))"

definition rx_trailingSep :: regex where
  \<comment> \<open>\<^verbatim>\<open>/[\\\/]$/\<close>\<close>
  "rx_trailingSep = Seq (Cls isSeparator) Eol"

definition rx_sep :: regex where
  \<comment> \<open>\<^verbatim>\<open>/(?<sep>[\\\/])/\<close>; the group \<^verbatim>\<open>sep\<close> spans the whole pattern\<close>
  "rx_sep = Cls isSeparator"

definition rx_extension :: regex where
  \<comment> \<open>\<^verbatim>\<open>/\.[a-z0-9]{2,4}$/i\<close>\<close>
  "rx_extension = Seq (Cls (\<lambda>c. c = CHR ''.'')) (Seq (Rep 2 4 (Cls isExtChar)) Eol)"

subsection \<open>Raw completions, icons and completion items\<close>

text \<open>
  \<^verbatim>\<open>PwshCompletion\<close>. \<^verbatim>\<open>ResultType\<close> is a JavaScript number that the code only
  compares with integer constants and uses as a key of the icon table, so an integer
  stands for it. An optional field that is \<^verbatim>\<open>undefined\<close> is \<open>None\<close>.
\<close>

record PwshCompletion =
  CompletionText :: string
  ResultType :: int
  ToolTip :: "string option"
  CustomIcon :: "string option"

text \<open>
  \<^verbatim>\<open>ThemeIcon\<close> and \<^verbatim>\<open>Codicon\<close> are declared outside these sources. An icon is
  identified by the name of the \<^verbatim>\<open>Codicon\<close> member that holds it; the registry itself
  is a parameter \<open>Codicon\<close> of the functions that consult it: \<open>Codicon k = None\<close> when
  \<^verbatim>\<open>k in Codicon\<close> is false, and \<open>Some v\<close> with \<open>v\<close> the value of \<^verbatim>\<open>Codicon[k]\<close>
  (of type \<^verbatim>\<open>ThemeIcon | undefined\<close>) otherwise.
\<close>

datatype ThemeIcon = ThemeIcon string

type_synonym codicons = "string \<Rightarrow> ThemeIcon option option"

abbreviation "Codicon_symbolText \<equiv> ThemeIcon ''symbolText''"
abbreviation "Codicon_history \<equiv> ThemeIcon ''history''"
abbreviation "Codicon_symbolMethod \<equiv> ThemeIcon ''symbolMethod''"
abbreviation "Codicon_symbolFile \<equiv> ThemeIcon ''symbolFile''"
abbreviation "Codicon_folder \<equiv> ThemeIcon ''folder''"
abbreviation "Codicon_symbolProperty \<equiv> ThemeIcon ''symbolProperty''"
abbreviation "Codicon_symbolVariable \<equiv> ThemeIcon ''symbolVariable''"
abbreviation "Codicon_symbolValue \<equiv> ThemeIcon ''symbolValue''"
abbreviation "Codicon_symbolNamespace \<equiv> ThemeIcon ''symbolNamespace''"
abbreviation "Codicon_symbolInterface \<equiv> ThemeIcon ''symbolInterface''"
abbreviation "Codicon_symbolKeyword \<equiv> ThemeIcon ''symbolKeyword''"

definition pwshTypeToIconMap :: "int \<Rightarrow> ThemeIcon option" where
  "pwshTypeToIconMap = map_of
     [(0, Codicon_symbolText),
      (1, Codicon_history),
      (2, Codicon_symbolMethod),
      (3, Codicon_symbolFile),
      (4, Codicon_folder),
      (5, Codicon_symbolProperty),
      (6, Codicon_symbolMethod),
      (7, Codicon_symbolVariable),
      (8, Codicon_symbolValue),
      (9, Codicon_symbolVariable),
      (10, Codicon_symbolNamespace),
      (11, Codicon_symbolInterface),
      (12, Codicon_symbolKeyword),
      (13, Codicon_symbolKeyword)]"

definition getIcon :: "codicons \<Rightarrow> int \<Rightarrow> string option \<Rightarrow> ThemeIcon" where
  "getIcon Codicon resultType customIconId =
     (let fromTable = (case pwshTypeToIconMap resultType of
                         Some i \<Rightarrow> i | None \<Rightarrow> Codicon_symbolText)
      in case customIconId of
           None \<Rightarrow> fromTable
         | Some cid \<Rightarrow>
             if cid = [] then fromTable
             else (case (case Codicon cid of
                           Some v \<Rightarrow> v | None \<Rightarrow> Some Codicon_symbolText) of
                     Some icon \<Rightarrow> icon
                   | None \<Rightarrow> fromTable))"

text \<open>
  A JavaScript number that is an integer or \<^verbatim>\<open>NaN\<close>: what \<^verbatim>\<open>parseInt\<close> and the
  cursor index give for the replacement span.
\<close>

datatype number = Num int | NaN

text \<open>
  Modelled from the spec: \<^verbatim>\<open>TerminalCompletionItem\<close> is declared in
  \<^verbatim>\<open>terminalSuggestionService.ts\<close>, outside these sources. The record has the fields
  of the spec's CompletionItem, in the order of the constructor call of the source; the
  two arguments the source passes as \<^verbatim>\<open>undefined\<close> have no field.
\<close>

record TerminalCompletionItem =
  label :: string
  icon :: ThemeIcon
  detail :: string
  isFile :: bool
  isDirectory :: bool
  isKeyword :: bool
  replacementIndex :: number
  replacementLength :: number

text \<open>\<open>sep\<close> is \<^verbatim>\<open>sep\<close> of \<^verbatim>\<open>base/common/path\<close>, the separator of the host.\<close>

definition rawCompletionToTerminalCompletionItem ::
  "string \<Rightarrow> codicons \<Rightarrow> PwshCompletion \<Rightarrow> number \<Rightarrow> number \<Rightarrow> TerminalCompletionItem" where
  "rawCompletionToTerminalCompletionItem sep Codicon rawCompletion rIndex rLength =
     (let label0 = CompletionText rawCompletion;
          label1 =
            (if ResultType rawCompletion = 4 \<and>
                match label0 rx_history = None \<and>
                match label0 rx_dots = None \<and>
                match label0 rx_trailingSep = None
             then (let separator = (case match label0 rx_sep of Some m \<Rightarrow> m | None \<Rightarrow> sep)
                   in label0 @ separator)
             else label0);
          detail1 = (case ToolTip rawCompletion of Some t \<Rightarrow> t | None \<Rightarrow> label1);
          icon1 = getIcon Codicon (ResultType rawCompletion) (CustomIcon rawCompletion);
          isExecutable = (ResultType rawCompletion = 2 \<and>
                          match (CompletionText rawCompletion) rx_extension \<noteq> None);
          rawCompletion1 = (if isExecutable then rawCompletion\<lparr>ResultType := 3\<rparr> else rawCompletion)
      in \<lparr>label = label1,
          icon = icon1,
          detail = detail1,
          isFile = (ResultType rawCompletion1 = 3),
          isDirectory = (ResultType rawCompletion1 = 4),
          isKeyword = (ResultType rawCompletion1 = 12),
          replacementIndex = rIndex,
          replacementLength = rLength\<rparr>)"

subsection \<open>Decoded payloads\<close>

text \<open>
  A value as \<^verbatim>\<open>JSON.parse\<close> gives it, and \<^verbatim>\<open>undefined\<close>. Numbers are the integers;
  a number with a fraction is outside this model. An object is the list of its members,
  looked up by \<open>map_of\<close>.
\<close>

datatype jsval =
    JUndefined
  | JNull
  | JBool bool
  | JNum int
  | JStr string
  | JArr "jsval list"
  | JObj "(string \<times> jsval) list"

text \<open>
  What the source can throw. \<open>IllTyped\<close> is not an exception of the source: it marks a
  decoded value that is outside the TypeScript type the source declares for it
  (\<^verbatim>\<open>PwshCompletion | PwshCompletion[] | CompressedPwshCompletion[] | CompressedPwshCompletion\<close>,
  \<^verbatim>\<open>ITerminalCompletionItem\<close>). On such a value the source runs as untyped JavaScript,
  and that behaviour is not modelled.
\<close>

datatype error = SyntaxError | TypeError | Error string | IllTyped

definition falsy :: "jsval \<Rightarrow> bool" where
  "falsy v = (v = JUndefined \<or> v = JNull \<or> v = JBool False \<or> v = JNum 0 \<or> v = JStr [])"

text \<open>
  An optional string field: \<^verbatim>\<open>undefined\<close> and \<^verbatim>\<open>null\<close> both count as absent (the
  source reads such a field only through \<^verbatim>\<open>??\<close> and a truthiness test, which do not
  tell them apart).
\<close>

fun optionalString :: "jsval option \<Rightarrow> string option option" where
  "optionalString None = Some None"
| "optionalString (Some JUndefined) = Some None"
| "optionalString (Some JNull) = Some None"
| "optionalString (Some (JStr s)) = Some (Some s)"
| "optionalString (Some _) = None"

definition elementAt :: "jsval list \<Rightarrow> nat \<Rightarrow> jsval option" where
  \<comment> \<open>\<^verbatim>\<open>e[i]\<close> of an array\<close>
  "elementAt e i = (if i < length e then Some (e ! i) else None)"

text \<open>The cast of a decoded value to \<^verbatim>\<open>PwshCompletion\<close>.\<close>

definition asPwshCompletion :: "jsval \<Rightarrow> PwshCompletion option" where
  "asPwshCompletion v =
     (case v of
        JObj members \<Rightarrow>
          (case (map_of members ''CompletionText'', map_of members ''ResultType'',
                 optionalString (map_of members ''ToolTip''),
                 optionalString (map_of members ''CustomIcon'')) of
             (Some (JStr t), Some (JNum k), Some tt, Some ci) \<Rightarrow>
               Some \<lparr>CompletionText = t, ResultType = k, ToolTip = tt, CustomIcon = ci\<rparr>
           | _ \<Rightarrow> None)
      | _ \<Rightarrow> None)"

text \<open>
  The cast of a decoded value to \<^verbatim>\<open>CompressedPwshCompletion\<close>, followed by the mapping
  \<^verbatim>\<open>e => ({ CompletionText: e[0], ResultType: e[1], ToolTip: e[2], CustomIcon: e[3] })\<close>.
\<close>

definition ofCompressed :: "jsval \<Rightarrow> PwshCompletion option" where
  "ofCompressed v =
     (case v of
        JArr e \<Rightarrow>
          (case (elementAt e 0, elementAt e 1, optionalString (elementAt e 2),
                 optionalString (elementAt e 3)) of
             (Some (JStr t), Some (JNum k), Some tt, Some ci) \<Rightarrow>
               Some \<lparr>CompletionText = t, ResultType = k, ToolTip = tt, CustomIcon = ci\<rparr>
           | _ \<Rightarrow> None)
      | _ \<Rightarrow> None)"

fun sequence :: "'a option list \<Rightarrow> 'a list option" where
  "sequence [] = Some []"
| "sequence (x # xs) =
     (case x of None \<Rightarrow> None
      | Some y \<Rightarrow> (case sequence xs of None \<Rightarrow> None | Some ys \<Rightarrow> Some (y # ys)))"

definition parseCompletionsFromShell ::
  "string \<Rightarrow> codicons \<Rightarrow> jsval \<Rightarrow> number \<Rightarrow> number \<Rightarrow> error + TerminalCompletionItem list" where
  "parseCompletionsFromShell sep Codicon rawCompletions rIndex rLength =
     (if falsy rawCompletions then Inr []
      else
        (let typedRawCompletions =
               (case rawCompletions of
                  JArr xs \<Rightarrow>
                    (case xs of
                       [] \<Rightarrow> Some []
                     | x # _ \<Rightarrow>
                         (case x of
                            JStr _ \<Rightarrow> sequence (map ofCompressed [rawCompletions])
                          | JArr _ \<Rightarrow> sequence (map ofCompressed xs)
                          | _ \<Rightarrow> sequence (map asPwshCompletion xs)))
                | _ \<Rightarrow> sequence (map asPwshCompletion [rawCompletions]))
         in case typedRawCompletions of
              None \<Rightarrow> Inl IllTyped
            | Some rs \<Rightarrow>
                Inr (map (\<lambda>e. rawCompletionToTerminalCompletionItem sep Codicon e rIndex rLength) rs)))"

subsection \<open>Strings and numbers of the message\<close>

text \<open>\<^verbatim>\<open>data.split(';')\<close>.\<close>

fun split :: "char \<Rightarrow> string \<Rightarrow> string list" where
  "split d [] = [[]]"
| "split d (c # cs) =
     (if c = d then [] # split d cs
      else (case split d cs of x # xs \<Rightarrow> (c # x) # xs | [] \<Rightarrow> [[c]]))"

text \<open>
  \<^verbatim>\<open>parseInt\<close> without a radix: leading white space, a sign, the prefix \<^verbatim>\<open>0x\<close>, then
  the longest run of digits; \<^verbatim>\<open>NaN\<close> when there is none. The result is exact (the
  rounding of integers beyond \<open>2^53\<close> is not modelled). The argument \<open>None\<close> is
  \<^verbatim>\<open>undefined\<close>, read as the text \<^verbatim>\<open>undefined\<close>.
\<close>

definition isStrWhiteSpaceChar :: "char \<Rightarrow> bool" where
  "isStrWhiteSpaceChar c = (of_char c \<in> {9, 10, 11, 12, 13, 32, 160 :: nat})"

definition digitValue :: "char \<Rightarrow> nat" where
  "digitValue c =
     (let n = of_char c :: nat
      in if 48 \<le> n \<and> n \<le> 57 then n - 48
         else if 97 \<le> n \<and> n \<le> 122 then n - 87
         else if 65 \<le> n \<and> n \<le> 90 then n - 55
         else 36)"

definition parseInt :: "string option \<Rightarrow> number" where
  "parseInt input =
     (let inputString = (case input of None \<Rightarrow> ''undefined'' | Some s \<Rightarrow> s);
          s0 = dropWhile isStrWhiteSpaceChar inputString;
          sign = (if s0 \<noteq> [] \<and> hd s0 = CHR ''-'' then - 1 else 1 :: int);
          s1 = (if s0 \<noteq> [] \<and> (hd s0 = CHR ''+'' \<or> hd s0 = CHR ''-'') then tl s0 else s0);
          hex = (take 2 s1 = ''0x'' \<or> take 2 s1 = ''0X'');
          R = (if hex then 16 else 10 :: nat);
          s2 = (if hex then drop 2 s1 else s1);
          z = takeWhile (\<lambda>c. digitValue c < R) s2
      in if z = [] then NaN
         else Num (sign * int (foldl (\<lambda>a c. a * R + digitValue c) 0 z)))"

fun plus_number :: "number \<Rightarrow> number \<Rightarrow> number" where
  "plus_number (Num a) (Num b) = Num (a + b)"
| "plus_number _ _ = NaN"

fun minus_number :: "number \<Rightarrow> number \<Rightarrow> number" where
  "minus_number (Num a) (Num b) = Num (a - b)"
| "minus_number _ _ = NaN"

text \<open>
  \<^verbatim>\<open>s.substring(start, end)\<close>: \<^verbatim>\<open>NaN\<close> and negative arguments count as 0, arguments
  beyond the length as the length, and the two are swapped when \<open>start\<close> is the larger.
\<close>

fun clampIndex :: "nat \<Rightarrow> number \<Rightarrow> nat" where
  "clampIndex len NaN = 0"
| "clampIndex len (Num i) = (if i < 0 then 0 else min (nat i) len)"

definition substring :: "string \<Rightarrow> number \<Rightarrow> number \<Rightarrow> string" where
  "substring s start stop =
     (let a = clampIndex (length s) start;
          b = clampIndex (length s) stop
      in take (max a b - min a b) (drop (min a b) s))"

subsection \<open>The provider: environment and state\<close>

text \<open>
  \<^verbatim>\<open>IPromptInputModelState\<close>, also the part of \<^verbatim>\<open>IPromptInputModel\<close> that the source
  reads (\<open>inputValue\<close> is the member \<^verbatim>\<open>value\<close>).
\<close>

record IPromptInputModelState =
  inputValue :: string
  prefix :: string
  suffix :: string
  cursorIndex :: int
  ghostTextIndex :: int

text \<open>The xterm terminal: its DOM element, when it is attached.\<close>

record Terminal =
  element :: "nat option"

datatype TerminalShellType = PowerShell | OtherShellType

text \<open>
  The events the provider fires, in a log. The byte sequences carried by
  \<^verbatim>\<open>onAcceptedCompletion\<close> are statics of \<^verbatim>\<open>SuggestAddon\<close>, outside these sources, and
  are named.
\<close>

datatype triggerSequence =
    requestEnableCodeCompletionsSequence
  | requestEnableGitCompletionsSequence
  | requestGlobalCompletionsSequence
  | requestCompletionsSequence

datatype event =
    DidReceiveCompletions
  | DidRequestCompletions
  | AcceptedCompletion triggerSequence

text \<open>
  A promise made by \<^verbatim>\<open>_waitForCompletions\<close> is pending or resolved with a list of items
  or with \<^verbatim>\<open>undefined\<close> (\<open>None\<close>). The promises made so far are kept in a list; a
  promise is named by its position, and so is its \<^verbatim>\<open>resolve\<close> function.
\<close>

datatype promise = Pending | Resolved "TerminalCompletionItem list option"

text \<open>
  What the provider reads from its surroundings: the path separator of the host, the icon
  registry, \<^verbatim>\<open>JSON.parse\<close> (\<open>None\<close> when it throws its \<^verbatim>\<open>SyntaxError\<close>), the unchecked
  cast of a decoded value to \<^verbatim>\<open>ITerminalCompletionItem\<close>, the focus test
  \<^verbatim>\<open>dom.isAncestorOfActiveElement\<close>, the two settings under \<^verbatim>\<open>builtinCompletions\<close>,
  and \<^verbatim>\<open>SuggestAddon.lastAcceptedCompletionTimestamp\<close>.
\<close>

record host =
  hostSep :: string
  hostCodicon :: codicons
  JSON_parse :: "string \<Rightarrow> jsval option"
  asItem :: "jsval \<Rightarrow> TerminalCompletionItem option"
  isAncestorOfActiveElement :: "nat \<Rightarrow> bool"
  pwshCode :: bool
  pwshGit :: bool
  lastAcceptedCompletionTimestamp :: int

text \<open>
  What outlives one provider: the static \<^verbatim>\<open>cachedPwshCommands\<close> (a set of objects, each
  decoded or built on its own, so a list in insertion order), the application-scoped storage,
  and the promises.
\<close>

record process =
  cachedPwshCommands :: "TerminalCompletionItem list"
  storage :: "string \<Rightarrow> string option"
  promises :: "promise list"

text \<open>The fields of the class, without the leading underscore, and the log of fired events.\<close>

record PwshCompletionProviderAddon =
  codeCompletionsRequested :: bool
  gitCompletionsRequested :: bool
  lastUserDataTimestamp :: int
  terminal :: "Terminal option"
  isFilteringDirectories :: bool
  mostRecentCompletion :: "TerminalCompletionItem option"
  promptInputModel :: "IPromptInputModelState option"
  currentPromptInputState :: "IPromptInputModelState option"
  enableWidget :: bool
  pathSeparator :: string
  leadingLineContent :: "string option"
  cursorIndexDelta :: number
  isPasting :: bool
  completionsResolver :: "nat option"
  fired :: "event list"

definition CachedPwshCommandsStorageKey :: string where
  "CachedPwshCommandsStorageKey = ''terminal.suggest.pwshCommands''"

subsection \<open>The request correlator\<close>

definition resolve :: "nat \<Rightarrow> TerminalCompletionItem list option \<Rightarrow> process \<Rightarrow> process" where
  \<comment> \<open>calling the \<^verbatim>\<open>resolve\<close> function of promise \<open>p\<close>; a settled promise stays as it is\<close>
  "resolve p result pr =
     (if p < length (promises pr) \<and> promises pr ! p = Pending
      then pr\<lparr>promises := (promises pr)[p := Resolved result]\<rparr>
      else pr)"

definition notifyCompletions ::
  "TerminalCompletionItem list option \<Rightarrow> PwshCompletionProviderAddon \<times> process
     \<Rightarrow> PwshCompletionProviderAddon \<times> process" where
  "notifyCompletions result = (\<lambda>(a, pr).
     case completionsResolver a of
       Some p \<Rightarrow> (a\<lparr>completionsResolver := None\<rparr>, resolve p result pr)
     | None \<Rightarrow> (a, pr))"

definition waitForCompletions ::
  "PwshCompletionProviderAddon \<times> process \<Rightarrow> nat \<times> PwshCompletionProviderAddon \<times> process" where
  "waitForCompletions = (\<lambda>(a, pr).
     let p = length (promises pr)
     in (p, a\<lparr>completionsResolver := Some p\<rparr>, pr\<lparr>promises := promises pr @ [Pending]\<rparr>))"

text \<open>
  \<^verbatim>\<open>provideCompletions\<close> runs to its only \<^verbatim>\<open>await\<close> at once; the promise it returns
  settles as the one of \<^verbatim>\<open>_waitForCompletions\<close> does and is identified with it.
\<close>

definition provideCompletions ::
  "host \<Rightarrow> string \<Rightarrow> PwshCompletionProviderAddon \<times> process
     \<Rightarrow> nat \<times> PwshCompletionProviderAddon \<times> process" where
  "provideCompletions h val = (\<lambda>(a, pr).
     let a1 = (if \<not> codeCompletionsRequested a \<and> pwshCode h
               then a\<lparr>fired := fired a @ [AcceptedCompletion requestEnableCodeCompletionsSequence],
                      codeCompletionsRequested := True\<rparr>
               else a);
         a2 = (if \<not> gitCompletionsRequested a1 \<and> pwshGit h
               then a1\<lparr>fired := fired a1 @ [AcceptedCompletion requestEnableGitCompletionsSequence],
                       gitCompletionsRequested := True\<rparr>
               else a1);
         a3 = (if cachedPwshCommands pr = []
               then a2\<lparr>fired := fired a2 @ [AcceptedCompletion requestGlobalCompletionsSequence]\<rparr>
               else a2);
         a4 = (if lastUserDataTimestamp a3 > lastAcceptedCompletionTimestamp h
               then a3\<lparr>fired := fired a3 @ [AcceptedCompletion requestCompletionsSequence,
                                              DidRequestCompletions]\<rparr>
               else a3)
     in waitForCompletions (a4, pr))"

subsection \<open>Inbound completion batches\<close>

datatype outcome = Returned | Thrown error

definition arg :: "string list \<Rightarrow> nat \<Rightarrow> string option" where
  \<comment> \<open>\<^verbatim>\<open>args[i]\<close>, \<^verbatim>\<open>undefined\<close> beyond the end\<close>
  "arg args i = (if i < length args then Some (args ! i) else None)"

text \<open>
  \<^verbatim>\<open>_handleCompletionsSequence\<close>, in four definitions: the leading line content and the
  test for a global command, which the source computes in local variables (lines 186 to
  201), the part from the merge of the cache to the notification (lines 212 to 237), and
  the function itself. Reading \<^verbatim>\<open>.length\<close> of a missing argument throws a
  \<^verbatim>\<open>TypeError\<close>. The call of \<^verbatim>\<open>normalizePathSeparator\<close> only sets a local variable that
  is not read again and has no counterpart here.
\<close>

definition leadingLineOf :: "IPromptInputModelState \<Rightarrow> number \<Rightarrow> string" where
  "leadingLineOf state delta =
     (let replacementIndex0 = Num 0;
          replacementLength0 = Num (cursorIndex state)
      in substring (prefix state) replacementIndex0
           (plus_number (plus_number replacementIndex0 replacementLength0) delta))"

definition isGlobalCommandOf :: "string \<Rightarrow> bool" where
  "isGlobalCommandOf leading =
     (let firstChar = (if length leading = 0 then [] else [leading ! 0])
      in CHR '' '' \<notin> set leading \<and> firstChar \<noteq> ''['')"

definition deliverCompletions ::
  "host \<Rightarrow> bool \<Rightarrow> IPromptInputModelState \<Rightarrow> number \<Rightarrow> number \<Rightarrow> TerminalCompletionItem list
     \<Rightarrow> PwshCompletionProviderAddon \<times> process
     \<Rightarrow> outcome \<times> PwshCompletionProviderAddon \<times> process" where
  "deliverCompletions h isGlobalCommand state rIndex rLength completions0 = (\<lambda>(a3, pr).
     let completions1 =
           (if isGlobalCommand then completions0 @ cachedPwshCommands pr else completions0);
         completions =
           (case mostRecentCompletion a3 of
              Some m \<Rightarrow>
                if isDirectory m \<and> list_all isDirectory completions1
                then completions1 @ [m] else completions1
            | None \<Rightarrow> completions1);
         a4 = a3\<lparr>mostRecentCompletion := None,
                 cursorIndexDelta :=
                   minus_number (Num (cursorIndex state)) (plus_number rIndex rLength)\<rparr>;
         a5 = a4\<lparr>isFilteringDirectories := list_ex isDirectory completions\<rparr>;
         a6 = (if isFilteringDirectories a5
               then a5\<lparr>pathSeparator :=
                        (case find isDirectory completions of
                           Some c \<Rightarrow>
                             (case match (label c) rx_sep of
                                Some m \<Rightarrow> m | None \<Rightarrow> hostSep h)
                         | None \<Rightarrow> hostSep h)\<rparr>
               else a5)
     in case notifyCompletions (Some completions) (a6, pr) of
          (a', pr') \<Rightarrow> (Returned, a', pr'))"

definition handleCompletionsSequence ::
  "host \<Rightarrow> Terminal \<Rightarrow> string \<Rightarrow> string \<Rightarrow> string list
     \<Rightarrow> PwshCompletionProviderAddon \<times> process
     \<Rightarrow> outcome \<times> PwshCompletionProviderAddon \<times> process" where
  "handleCompletionsSequence h term data command args = (\<lambda>(a0, pr).
     let a = a0\<lparr>fired := fired a0 @ [DidReceiveCompletions]\<rparr>
     in case (element term, if enableWidget a then promptInputModel a else None) of
          (Some el, Some model) \<Rightarrow>
            if \<not> isAncestorOfActiveElement h el
            then (case notifyCompletions None (a, pr) of (a', pr') \<Rightarrow> (Returned, a', pr'))
            else
              (let a1 = a\<lparr>currentPromptInputState := Some model\<rparr>;
                   leading = leadingLineOf model (cursorIndexDelta a1);
                   a2 = a1\<lparr>leadingLineContent := Some leading\<rparr>;
                   isGlobalCommand = isGlobalCommandOf leading;
                   rIndex = (if \<not> isGlobalCommand then parseInt (arg args 0) else Num 0);
                   rLength = (if \<not> isGlobalCommand then parseInt (arg args 1)
                              else Num (cursorIndex model));
                   a3 = (if \<not> isGlobalCommand then a2\<lparr>leadingLineContent := Some (prefix model)\<rparr>
                         else a2)
               in case (arg args 0, arg args 1, arg args 2) of
                    (Some arg0, Some arg1, Some arg2) \<Rightarrow>
                      (let payload = drop (length command + length arg0 + length arg1 +
                                           length arg2 + 4) data
                       in case (if length args = 0 \<or> length payload = 0 then Some JUndefined
                                else JSON_parse h payload) of
                            None \<Rightarrow> (Thrown SyntaxError, a3, pr)
                          | Some rawCompletions \<Rightarrow>
                              (case parseCompletionsFromShell (hostSep h) (hostCodicon h)
                                      rawCompletions rIndex rLength of
                                 Inl e \<Rightarrow> (Thrown e, a3, pr)
                               | Inr completions0 \<Rightarrow>
                                   deliverCompletions h isGlobalCommand model rIndex rLength
                                     completions0 (a3, pr)))
                  | _ \<Rightarrow> (Thrown TypeError, a3, pr))
        | _ \<Rightarrow> (case notifyCompletions None (a, pr) of (a', pr') \<Rightarrow> (Returned, a', pr')))"

subsection \<open>Construction and the hydration of the cache\<close>

text \<open>\<^verbatim>\<open>for (const c of completions)\<close>: the elements of an array, the characters of a string.\<close>

fun iterate :: "jsval \<Rightarrow> error + jsval list" where
  "iterate (JArr xs) = Inr xs"
| "iterate (JStr s) = Inr (map (\<lambda>c. JStr [c]) s)"
| "iterate _ = Inl TypeError"

text \<open>
  The constructor. \<open>caps\<close> is the prompt input model of the command-detection capability,
  \<open>None\<close> when the store has no such capability. The result is the new provider or the
  error thrown, and the process state left behind in either case.
\<close>

definition "constructor" ::
  "host \<Rightarrow> TerminalCompletionItem list option \<Rightarrow> TerminalShellType option
     \<Rightarrow> IPromptInputModelState option \<Rightarrow> process
     \<Rightarrow> (error + PwshCompletionProviderAddon) \<times> process" where
  "constructor h providedPwshCommands shellType caps pr =
     (if shellType \<noteq> None \<and> shellType \<noteq> Some PowerShell
      then (Inl (Error ''PwshCompletionProviderAddon can only be used with PowerShell''), pr)
      else
        (let a = \<lparr>codeCompletionsRequested = False,
                  gitCompletionsRequested = False,
                  lastUserDataTimestamp = 0,
                  terminal = None,
                  isFilteringDirectories = False,
                  mostRecentCompletion = None,
                  promptInputModel = caps,
                  currentPromptInputState = None,
                  enableWidget = True,
                  pathSeparator = hostSep h,
                  leadingLineContent = None,
                  cursorIndexDelta = Num 0,
                  isPasting = False,
                  completionsResolver = None,
                  fired = []\<rparr>;
             pr1 = pr\<lparr>cachedPwshCommands :=
                        (case providedPwshCommands of Some s \<Rightarrow> s | None \<Rightarrow> [])\<rparr>
         in if length (cachedPwshCommands pr1) = 0
            then (case storage pr1 CachedPwshCommandsStorageKey of
                    None \<Rightarrow> (Inr a, pr1)
                  | Some config \<Rightarrow>
                      (case JSON_parse h config of
                         None \<Rightarrow> (Inl SyntaxError, pr1)
                       | Some completions \<Rightarrow>
                           (case iterate completions of
                              Inl e \<Rightarrow> (Inl e, pr1)
                            | Inr cs \<Rightarrow>
                                (case sequence (map (asItem h) cs) of
                                   None \<Rightarrow> (Inl IllTyped, pr1)
                                 | Some items \<Rightarrow>
                                     (Inr a, pr1\<lparr>cachedPwshCommands :=
                                                   cachedPwshCommands pr1 @ items\<rparr>)))))
            else (Inr a, pr1)))"

subsection \<open>Vocabulary of the properties\<close>

text \<open>
  The pattern \<^verbatim>\<open>^[A-Za-z0-9_.]+\.[a-z0-9]{2,4}$\<close> under which the specification
  states the reclassification of executables, as a term of the same matcher.
\<close>

definition isSpecNameChar :: "char \<Rightarrow> bool" where
  "isSpecNameChar c = (c \<in> set ''ABCDEFGHIJKLMNOPQRSTUVWXYZabcdefghijklmnopqrstuvwxyz0123456789_.'')"

definition isLowerOrDigit :: "char \<Rightarrow> bool" where
  "isLowerOrDigit c = (c \<in> set ''abcdefghijklmnopqrstuvwxyz0123456789'')"

definition rx_specExecutable :: regex where
  "rx_specExecutable =
     Seq Bol (Seq (Plus isSpecNameChar)
       (Seq (Cls (\<lambda>c. c = CHR ''.'')) (Seq (Rep 2 4 (Cls isLowerOrDigit)) Eol)))"

text \<open>A label ends in a path separator; a text ends in a dot and two to four extension characters.\<close>

definition endsInSeparator :: "string \<Rightarrow> bool" where
  "endsInSeparator s = (s \<noteq> [] \<and> isSeparator (last s))"

definition hasExtension :: "string \<Rightarrow> bool" where
  "hasExtension s \<longleftrightarrow>
     (\<exists>pre e. s = pre @ CHR ''.'' # e \<and> 2 \<le> length e \<and> length e \<le> 4 \<and> list_all isExtChar e)"

text \<open>
  The two encodings of one logical completion, after the specification: the object form
  with the members \<^verbatim>\<open>CompletionText\<close>, \<^verbatim>\<open>ResultType\<close>, \<^verbatim>\<open>ToolTip\<close>,
  \<^verbatim>\<open>CustomIcon\<close>, and the tuple form with the text at index 0, the kind at 1, the
  tooltip at 2 and the custom icon id at 3. An absent optional field is left out; an absent
  tooltip before a custom icon id is \<^verbatim>\<open>null\<close>.
\<close>

definition objectForm :: "PwshCompletion \<Rightarrow> jsval" where
  "objectForm r =
     JObj ([(''CompletionText'', JStr (CompletionText r)), (''ResultType'', JNum (ResultType r))]
           @ (case ToolTip r of None \<Rightarrow> [] | Some t \<Rightarrow> [(''ToolTip'', JStr t)])
           @ (case CustomIcon r of None \<Rightarrow> [] | Some c \<Rightarrow> [(''CustomIcon'', JStr c)]))"

definition tupleForm :: "PwshCompletion \<Rightarrow> jsval" where
  "tupleForm r =
     JArr ([JStr (CompletionText r), JNum (ResultType r)]
           @ (case CustomIcon r of
                None \<Rightarrow> (case ToolTip r of None \<Rightarrow> [] | Some t \<Rightarrow> [JStr t])
              | Some c \<Rightarrow> [case ToolTip r of None \<Rightarrow> JNull | Some t \<Rightarrow> JStr t, JStr c]))"

text \<open>
  A registry for concrete evaluations: it holds the members of \<^verbatim>\<open>Codicon\<close> that the
  source names, each under its own name.
\<close>

definition knownCodicons :: codicons where
  "knownCodicons = map_of (map (\<lambda>n. (n, Some (ThemeIcon n)))
     [''symbolText'', ''history'', ''symbolMethod'', ''symbolFile'', ''folder'',
      ''symbolProperty'', ''symbolVariable'', ''symbolValue'', ''symbolNamespace'',
      ''symbolInterface'', ''symbolKeyword''])"

subsection \<open>A JSON reader for concrete evaluations\<close>

text \<open>
  \<^verbatim>\<open>JSON.parse\<close> is a parameter of the model. Where a statement is evaluated at a
  concrete message, the parameter is this reader of the JSON grammar: white space, the three
  literals, strings with their escapes, arrays, objects (a repeated key keeps its last
  value) and integer numbers. A number with a fraction or an exponent, and an escape
  \<^verbatim>\<open>\u\<close> of a code unit beyond 255, are outside its domain: it answers \<open>None\<close> for
  them as it does for a malformed text. The first argument bounds the number of nested
  calls; the length of the text is enough.
\<close>

definition isJsonWhiteSpace :: "char \<Rightarrow> bool" where
  "isJsonWhiteSpace c = (c = CHR '' '' \<or> c = CHR 0x09 \<or> c = CHR 0x0A \<or> c = CHR 0x0D)"

definition isDigit :: "char \<Rightarrow> bool" where
  "isDigit c = (c \<in> set ''0123456789'')"

definition hex4 :: "char \<Rightarrow> char \<Rightarrow> char \<Rightarrow> char \<Rightarrow> nat option" where
  "hex4 a b c d =
     (if digitValue a < 16 \<and> digitValue b < 16 \<and> digitValue c < 16 \<and> digitValue d < 16
      then Some (((digitValue a * 16 + digitValue b) * 16 + digitValue c) * 16 + digitValue d)
      else None)"

fun readString :: "string \<Rightarrow> string \<Rightarrow> (string \<times> string) option" where
  "readString [] acc = None"
| "readString (c # cs) acc =
     (if c = CHR 0x22 then Some (rev acc, cs)
      else if c = CHR 0x5C then
        (case cs of
           [] \<Rightarrow> None
         | e # es \<Rightarrow>
             if e = CHR 0x22 \<or> e = CHR 0x5C \<or> e = CHR ''/'' then readString es (e # acc)
             else if e = CHR ''b'' then readString es (CHR 0x08 # acc)
             else if e = CHR ''f'' then readString es (CHR 0x0C # acc)
             else if e = CHR ''n'' then readString es (CHR 0x0A # acc)
             else if e = CHR ''r'' then readString es (CHR 0x0D # acc)
             else if e = CHR ''t'' then readString es (CHR 0x09 # acc)
             else if e = CHR ''u'' then
               (case es of
                  h1 # h2 # h3 # h4 # rest \<Rightarrow>
                    (case hex4 h1 h2 h3 h4 of
                       Some n \<Rightarrow> if n < 256 then readString rest (char_of n # acc) else None
                     | None \<Rightarrow> None)
                | _ \<Rightarrow> None)
             else None)
      else if (of_char c :: nat) < 32 then None
      else readString cs (c # acc))"

definition readNumber :: "string \<Rightarrow> (int \<times> string) option" where
  "readNumber s =
     (let negative = (s \<noteq> [] \<and> hd s = CHR ''-'');
          s1 = (if negative then tl s else s);
          ds = (if s1 \<noteq> [] \<and> hd s1 = CHR ''0'' then ''0'' else takeWhile isDigit s1);
          rest = drop (length ds) s1
      in if ds = [] then None
         else if rest \<noteq> [] \<and> (hd rest = CHR ''.'' \<or> hd rest = CHR ''e'' \<or> hd rest = CHR ''E'')
         then None
         else Some ((if negative then - 1 else 1) *
                      int (foldl (\<lambda>a c. a * 10 + digitValue c) 0 ds), rest))"

fun readValue :: "nat \<Rightarrow> string \<Rightarrow> (jsval \<times> string) option"
  and readElements :: "nat \<Rightarrow> string \<Rightarrow> jsval list \<Rightarrow> (jsval \<times> string) option"
  and readMembers :: "nat \<Rightarrow> string \<Rightarrow> (string \<times> jsval) list \<Rightarrow> (jsval \<times> string) option"
where
  "readValue 0 s = None"
| "readValue (Suc n) s =
     (case dropWhile isJsonWhiteSpace s of
        [] \<Rightarrow> None
      | c # cs \<Rightarrow>
          if c = CHR ''['' then
            (case dropWhile isJsonWhiteSpace cs of
               [] \<Rightarrow> None
             | d # ds \<Rightarrow> if d = CHR '']'' then Some (JArr [], ds) else readElements n cs [])
          else if c = CHR ''{'' then
            (case dropWhile isJsonWhiteSpace cs of
               [] \<Rightarrow> None
             | d # ds \<Rightarrow> if d = CHR ''}'' then Some (JObj [], ds) else readMembers n cs [])
          else if c = CHR 0x22 then
            (case readString cs [] of None \<Rightarrow> None | Some (t, rest) \<Rightarrow> Some (JStr t, rest))
          else if take 4 (c # cs) = ''null'' then Some (JNull, drop 4 (c # cs))
          else if take 4 (c # cs) = ''true'' then Some (JBool True, drop 4 (c # cs))
          else if take 5 (c # cs) = ''false'' then Some (JBool False, drop 5 (c # cs))
          else (case readNumber (c # cs) of None \<Rightarrow> None | Some (k, rest) \<Rightarrow> Some (JNum k, rest)))"
| "readElements 0 s acc = None"
| "readElements (Suc n) s acc =
     (case readValue n s of
        None \<Rightarrow> None
      | Some (v, rest) \<Rightarrow>
          (case dropWhile isJsonWhiteSpace rest of
             [] \<Rightarrow> None
           | d # ds \<Rightarrow>
               if d = CHR '','' then readElements n ds (acc @ [v])
               else if d = CHR '']'' then Some (JArr (acc @ [v]), ds)
               else None))"
| "readMembers 0 s acc = None"
| "readMembers (Suc n) s acc =
     (case dropWhile isJsonWhiteSpace s of
        [] \<Rightarrow> None
      | q # qs \<Rightarrow>
          if q \<noteq> CHR 0x22 then None
          else
            (case readString qs [] of
               None \<Rightarrow> None
             | Some (k, rest) \<Rightarrow>
                 (case dropWhile isJsonWhiteSpace rest of
                    [] \<Rightarrow> None
                  | colon # afterColon \<Rightarrow>
                      if colon \<noteq> CHR '':'' then None
                      else
                        (case readValue n afterColon of
                           None \<Rightarrow> None
                         | Some (v, rest1) \<Rightarrow>
                             (let acc1 = filter (\<lambda>m. fst m \<noteq> k) acc @ [(k, v)]
                              in case dropWhile isJsonWhiteSpace rest1 of
                                   [] \<Rightarrow> None
                                 | d # ds \<Rightarrow>
                                     if d = CHR '','' then readMembers n ds acc1
                                     else if d = CHR ''}'' then Some (JObj acc1, ds)
                                     else None)))))"

definition jsonParse :: "string \<Rightarrow> jsval option" where
  "jsonParse s =
     (case readValue (Suc (length s)) s of
        None \<Rightarrow> None
      | Some (v, rest) \<Rightarrow> if dropWhile isJsonWhiteSpace rest = [] then Some v else None)"

text \<open>
  Modelled from the spec: the members of a persisted \<^verbatim>\<open>ITerminalCompletionItem\<close>, a
  type declared outside these sources, are those of the spec's CompletionItem, with the
  icon as an object holding its \<^verbatim>\<open>id\<close>.
\<close>

definition itemOfJson :: "jsval \<Rightarrow> TerminalCompletionItem option" where
  "itemOfJson v =
     (case v of
        JObj ms \<Rightarrow>
          (case (map_of ms ''label'', map_of ms ''icon'', map_of ms ''detail'',
                 map_of ms ''isFile'', map_of ms ''isDirectory'', map_of ms ''isKeyword'',
                 map_of ms ''replacementIndex'', map_of ms ''replacementLength'') of
             (Some (JStr l), Some (JObj im), Some (JStr d), Some (JBool f), Some (JBool dir),
              Some (JBool k), Some (JNum ri), Some (JNum rl)) \<Rightarrow>
               (case map_of im ''id'' of
                  Some (JStr i) \<Rightarrow>
                    Some \<lparr>label = l, icon = ThemeIcon i, detail = d, isFile = f,
                          isDirectory = dir, isKeyword = k,
                          replacementIndex = Num ri, replacementLength = Num rl\<rparr>
                | _ \<Rightarrow> None)
           | _ \<Rightarrow> None)
      | _ \<Rightarrow> None)"

text \<open>
  The host of the concrete evaluations: a POSIX separator, the icons the source names, the
  reader above, both built-in completion sources switched on, the element 1 focused.
\<close>

definition exampleHost :: host where
  "exampleHost =
     \<lparr>hostSep = ''/'',
      hostCodicon = knownCodicons,
      JSON_parse = jsonParse,
      asItem = itemOfJson,
      isAncestorOfActiveElement = (\<lambda>el. el = 1),
      pwshCode = True,
      pwshGit = True,
      lastAcceptedCompletionTimestamp = 0\<rparr>"

text \<open>
  The payload of a message, as line 209 of the source cuts it out of \<open>data\<close>, and a
  \<^verbatim>\<open>Completions\<close> message with three arguments before its payload.
\<close>

definition payloadOf :: "string \<Rightarrow> string \<Rightarrow> string \<Rightarrow> string \<Rightarrow> string \<Rightarrow> string" where
  "payloadOf data command arg0 arg1 arg2 =
     drop (length command + length arg0 + length arg1 + length arg2 + 4) data"

definition completionsMessage :: "string \<Rightarrow> string \<Rightarrow> string \<Rightarrow> string \<Rightarrow> string" where
  "completionsMessage arg0 arg1 arg2 payload =
     ''Completions'' @ '';'' @ arg0 @ '';'' @ arg1 @ '';'' @ arg2 @ '';'' @ payload"

text \<open>
  States for the concrete evaluations: a provider with an attached terminal and the input
  \<open>cd s\<close> typed, a process with nothing cached, stored or promised, a process whose
  storage holds a truncated text under the key of the cache, and a directory item.
\<close>

definition examplePrompt :: IPromptInputModelState where
  "examplePrompt =
     \<lparr>inputValue = ''cd s'', prefix = ''cd s'', suffix = '''', cursorIndex = 4, ghostTextIndex = - 1\<rparr>"

definition exampleTerminal :: Terminal where
  "exampleTerminal = \<lparr>element = Some 1\<rparr>"

definition exampleAddon :: PwshCompletionProviderAddon where
  "exampleAddon =
     \<lparr>codeCompletionsRequested = False,
      gitCompletionsRequested = False,
      lastUserDataTimestamp = 1,
      terminal = Some exampleTerminal,
      isFilteringDirectories = False,
      mostRecentCompletion = None,
      promptInputModel = Some examplePrompt,
      currentPromptInputState = None,
      enableWidget = True,
      pathSeparator = ''/'',
      leadingLineContent = None,
      cursorIndexDelta = Num 0,
      isPasting = False,
      completionsResolver = None,
      fired = []\<rparr>"

definition exampleProcess :: process where
  "exampleProcess = \<lparr>cachedPwshCommands = [], storage = (\<lambda>k. None), promises = []\<rparr>"

definition srcDirectory :: TerminalCompletionItem where
  "srcDirectory =
     \<lparr>label = ''src/'', icon = Codicon_folder, detail = ''src/'', isFile = False,
      isDirectory = True, isKeyword = False, replacementIndex = Num 3,
      replacementLength = Num 1\<rparr>"

definition staleProcess :: process where
  "staleProcess =
     \<lparr>cachedPwshCommands = [],
      storage = (\<lambda>k. if k = CachedPwshCommandsStorageKey then Some ''[{'' else None),
      promises = []\<rparr>"

section \<open>Properties\<close>

subsection \<open>What the regular expressions accept\<close>

lemma rsearch_Bol_False: "rsearch (Seq Bol r) False s = None"
  by (induction s) auto

lemma match_anchored: "match s (Seq Bol r) \<noteq> None \<longleftrightarrow> rmatch r (True, s) \<noteq> []"
  by (cases s) (auto simp: match_def rsearch_Bol_False split: list.splits)

lemma match_history: "match s rx_history \<noteq> None \<longleftrightarrow> s = ''-'' \<or> s = ''+''"
  unfolding rx_history_def match_anchored
  by (auto split: list.splits if_splits)

lemma match_dots: "match s rx_dots \<noteq> None \<longleftrightarrow> s = ''.'' \<or> s = ''..''"
  unfolding rx_dots_def match_anchored
  by (auto split: list.splits if_splits)

lemma rsearch_trailingSep: "rsearch rx_trailingSep b s \<noteq> None \<longleftrightarrow> s \<noteq> [] \<and> isSeparator (last s)"
  by (induction s arbitrary: b) (auto simp: rx_trailingSep_def split: list.splits if_splits)

lemma rsearch_sep: "rsearch rx_sep b s = map_option (\<lambda>c. [c]) (find isSeparator s)"
  by (induction s arbitrary: b) (auto simp: rx_sep_def split: list.splits if_splits)

lemma ex_nat_split: "(\<exists>k::nat. P k) \<longleftrightarrow> P 0 \<or> (\<exists>j. P (Suc j))"
  by (metis not0_implies_Suc)

lemma repeat_Cls:
  "(b', e') \<in> set (repeat (rmatch (Cls p)) lo hi (b, e)) \<longleftrightarrow>
     (\<exists>k. lo \<le> k \<and> k \<le> hi \<and> k \<le> length e \<and> list_all p (take k e) \<and>
          e' = drop k e \<and> b' = (b \<and> k = 0))"
proof (induction hi arbitrary: lo b e)
  case 0
  show ?case by auto
next
  case (Suc hi)
  have step: "set (repeat (rmatch (Cls p)) lo (Suc hi) (b, e)) =
      (case e of [] \<Rightarrow> {} | c # cs \<Rightarrow>
         if p c then set (repeat (rmatch (Cls p)) (lo - 1) hi (False, cs)) else {})
      \<union> (if lo = 0 then {(b, e)} else {})"
    by (simp split: list.splits)
  show ?case
  proof (cases e)
    case Nil
    show ?thesis unfolding step Nil by (subst ex_nat_split) auto
  next
    case (Cons c cs)
    show ?thesis unfolding step Cons by (subst ex_nat_split) (cases lo; auto simp: Suc.IH)
  qed
qed

lemma rmatch_ext_tail:
  "rmatch (Seq (Rep 2 4 (Cls p)) Eol) (b, e) \<noteq> [] \<longleftrightarrow> 2 \<le> length e \<and> length e \<le> 4 \<and> list_all p e"
proof -
  have eol: "rmatch Eol st \<noteq> [] \<longleftrightarrow> snd st = []" for st
    by (cases st) auto
  have "rmatch (Seq (Rep 2 4 (Cls p)) Eol) (b, e) \<noteq> [] \<longleftrightarrow>
        (\<exists>b'. (b', []) \<in> set (repeat (rmatch (Cls p)) 2 4 (b, e)))"
    by (simp add: eol) force
  also have "\<dots> \<longleftrightarrow> 2 \<le> length e \<and> length e \<le> 4 \<and> list_all p e"
    unfolding repeat_Cls by auto
  finally show ?thesis .
qed

lemma rsearch_extension:
  "rsearch rx_extension b s \<noteq> None \<longleftrightarrow>
     (\<exists>pre e. s = pre @ CHR ''.'' # e \<and> 2 \<le> length e \<and> length e \<le> 4 \<and> list_all isExtChar e)"
proof (induction s arbitrary: b)
  case Nil
  show ?case by (simp add: rx_extension_def)
next
  case (Cons c cs)
  have here: "rmatch rx_extension (b, c # cs) \<noteq> [] \<longleftrightarrow>
      c = CHR ''.'' \<and> 2 \<le> length cs \<and> length cs \<le> 4 \<and> list_all isExtChar cs"
    using rmatch_ext_tail[of isExtChar False cs] by (simp add: rx_extension_def)
  have "rsearch rx_extension b (c # cs) \<noteq> None \<longleftrightarrow>
      rmatch rx_extension (b, c # cs) \<noteq> [] \<or> rsearch rx_extension False cs \<noteq> None"
    by (simp split: list.splits)
  also have "\<dots> \<longleftrightarrow> (c = CHR ''.'' \<and> 2 \<le> length cs \<and> length cs \<le> 4 \<and> list_all isExtChar cs)
      \<or> (\<exists>pre e. cs = pre @ CHR ''.'' # e \<and> 2 \<le> length e \<and> length e \<le> 4 \<and> list_all isExtChar e)"
    unfolding here Cons.IH ..
  also have "\<dots> \<longleftrightarrow> (\<exists>pre e. c # cs = pre @ CHR ''.'' # e \<and> 2 \<le> length e \<and> length e \<le> 4 \<and> list_all isExtChar e)"
    by (auto simp: Cons_eq_append_conv)
  finally show ?case .
qed

lemma match_trailingSep: "match s rx_trailingSep = None \<longleftrightarrow> \<not> endsInSeparator s"
  unfolding match_def endsInSeparator_def using rsearch_trailingSep[of True s] by blast

lemma match_sep: "match s rx_sep = map_option (\<lambda>c. [c]) (find isSeparator s)"
  by (simp add: match_def rsearch_sep)

lemma match_extension:
  "match s rx_extension \<noteq> None \<longleftrightarrow>
     (\<exists>pre e. s = pre @ CHR ''.'' # e \<and> 2 \<le> length e \<and> length e \<le> 4 \<and> list_all isExtChar e)"
  unfolding match_def by (rule rsearch_extension)

lemma isLowerOrDigit_isExtChar: "isLowerOrDigit c \<Longrightarrow> isExtChar c"
  by (auto simp: isLowerOrDigit_def isExtChar_def)

lemma match_specExecutable:
  assumes "match s rx_specExecutable \<noteq> None"
  shows "hasExtension s"
proof -
  let ?R = "Seq (Cls (\<lambda>c. c = CHR ''.'')) (Seq (Rep 2 4 (Cls isLowerOrDigit)) Eol)"
  from assms have "rmatch (Seq (Plus isSpecNameChar) ?R) (True, s) \<noteq> []"
    unfolding rx_specExecutable_def match_anchored .
  then obtain k where k: "rmatch ?R (False, drop k s) \<noteq> []"
    by auto
  then obtain c cs where cs: "drop k s = c # cs"
    by (cases "drop k s") auto
  with k have "c = CHR ''.''" and "rmatch (Seq (Rep 2 4 (Cls isLowerOrDigit)) Eol) (False, cs) \<noteq> []"
    by (auto split: if_splits)
  then have tail: "c = CHR ''.''" "2 \<le> length cs" "length cs \<le> 4" "list_all isLowerOrDigit cs"
    unfolding rmatch_ext_tail by auto
  have "s = take k s @ CHR ''.'' # cs"
    using cs tail(1) by (metis append_take_drop_id)
  moreover have "list_all isExtChar cs"
    using tail(4) by (auto simp: list_all_iff isLowerOrDigit_isExtChar)
  ultimately show ?thesis
    unfolding hasExtension_def using tail by blast
qed

lemma label_rawCompletion:
  "label (rawCompletionToTerminalCompletionItem sep Codicon r i l) =
     (if ResultType r = 4 \<and> CompletionText r \<notin> {''-'', ''+'', ''.'', ''..''} \<and>
         \<not> endsInSeparator (CompletionText r)
      then CompletionText r @
           (case find isSeparator (CompletionText r) of Some c \<Rightarrow> [c] | None \<Rightarrow> sep)
      else CompletionText r)"
proof -
  have h: "match s rx_history = None \<longleftrightarrow> s \<noteq> ''-'' \<and> s \<noteq> ''+''" for s
    using match_history[of s] by auto
  have d: "match s rx_dots = None \<longleftrightarrow> s \<noteq> ''.'' \<and> s \<noteq> ''..''" for s
    using match_dots[of s] by auto
  show ?thesis
    by (auto simp: rawCompletionToTerminalCompletionItem_def Let_def h d match_trailingSep
        match_sep split: option.splits)
qed

lemma flags_rawCompletion:
  "isFile (rawCompletionToTerminalCompletionItem sep Codicon r i l) =
     (ResultType r = 3 \<or> ResultType r = 2 \<and> hasExtension (CompletionText r))"
  "isDirectory (rawCompletionToTerminalCompletionItem sep Codicon r i l) = (ResultType r = 4)"
  "isKeyword (rawCompletionToTerminalCompletionItem sep Codicon r i l) = (ResultType r = 12)"
  "icon (rawCompletionToTerminalCompletionItem sep Codicon r i l) =
     getIcon Codicon (ResultType r) (CustomIcon r)"
  using match_extension[of "CompletionText r"]
  by (auto simp: rawCompletionToTerminalCompletionItem_def Let_def hasExtension_def)

subsection \<open>Icons\<close>

lemma table_dom: "pwshTypeToIconMap k = None \<longleftrightarrow> k < 0 \<or> 13 < k"
proof -
  have "k < 0 \<or> 13 < k \<or> k = 0 \<or> k = 1 \<or> k = 2 \<or> k = 3 \<or> k = 4 \<or> k = 5 \<or> k = 6 \<or>
        k = 7 \<or> k = 8 \<or> k = 9 \<or> k = 10 \<or> k = 11 \<or> k = 12 \<or> k = 13"
    by arith
  then show ?thesis by (auto simp: pwshTypeToIconMap_def)
qed

text \<open>
  C5, as stated, fails: a custom icon id that is present but is not a member of the registry
  does not fall back to the kind-to-icon table. For kind 4 the table holds the folder icon,
  and the code answers the generic symbol icon.
\<close>

theorem C5_unresolved_custom_icon_counterexample:
  "knownCodicons ''notACodicon'' = None \<and>
   pwshTypeToIconMap 4 = Some Codicon_folder \<and>
   getIcon knownCodicons 4 (Some ''notACodicon'') = Codicon_symbolText \<and>
   getIcon knownCodicons 4 (Some ''notACodicon'') \<noteq> Codicon_folder"
  by (simp add: getIcon_def knownCodicons_def pwshTypeToIconMap_def)

text \<open>
  C5, amended: a non-empty custom icon id that is a member of the registry with an icon
  gives that icon; a non-empty custom icon id that is not a member of the registry gives the
  generic symbol icon, whatever the kind; with no custom icon id, an empty one, or a member
  whose value is undefined, the icon is the one of the kind-to-icon table, and the generic
  symbol icon for the kinds absent from the table, which are the kinds outside 0..13.
\<close>

theorem C5_getIcon:
  "(customIconId = Some cid \<and> cid \<noteq> [] \<and> Codicon cid = Some (Some i)
      \<longrightarrow> getIcon Codicon k customIconId = i) \<and>
   (customIconId = Some cid \<and> cid \<noteq> [] \<and> Codicon cid = None
      \<longrightarrow> getIcon Codicon k customIconId = Codicon_symbolText) \<and>
   (customIconId = None \<or> customIconId = Some [] \<or>
    customIconId = Some cid \<and> Codicon cid = Some None
      \<longrightarrow> getIcon Codicon k customIconId =
            (case pwshTypeToIconMap k of Some i \<Rightarrow> i | None \<Rightarrow> Codicon_symbolText)) \<and>
   (pwshTypeToIconMap k = None \<longleftrightarrow> k < 0 \<or> 13 < k)"
  using table_dom[of k] by (auto simp: getIcon_def Let_def split: option.splits)

text \<open>
  C5, witness: the amended statement at a resolving custom icon, at an unresolved one, and
  without a custom icon for a kind of the table and for a kind outside it.
\<close>

theorem C5_getIcon_witness:
  "getIcon knownCodicons 2 (Some ''folder'') = Codicon_folder \<and>
   getIcon knownCodicons 4 (Some ''notACodicon'') = Codicon_symbolText \<and>
   getIcon knownCodicons 4 None = Codicon_folder \<and>
   getIcon knownCodicons 99 None = Codicon_symbolText"
  using C5_getIcon[of "Some ''folder''" "''folder''" knownCodicons Codicon_folder 2]
        C5_getIcon[of "Some ''notACodicon''" "''notACodicon''" knownCodicons undefined 4]
        C5_getIcon[of None undefined knownCodicons undefined 4]
        C5_getIcon[of None undefined knownCodicons undefined 99]
  by (simp add: knownCodicons_def pwshTypeToIconMap_def)

subsection \<open>Normalization of one raw completion\<close>

lemma spec_regex_example: "match ''git.exe'' rx_specExecutable \<noteq> None"
  by (simp add: match_def rx_specExecutable_def isSpecNameChar_def isLowerOrDigit_def numeral_eq_Suc upt_rec)

text \<open>
  C4: the claim asks for \<open>isKeyword\<close> on both keyword kinds, 12 and 13. At a raw
  completion of kind 13 the code gives \<open>isKeyword = False\<close>, while its icon table gives
  kind 13 the keyword icon.
\<close>

theorem C4_isKeyword_of_kind_13:
  "isKeyword (rawCompletionToTerminalCompletionItem ''/'' knownCodicons
      \<lparr>CompletionText = ''configuration'', ResultType = 13, ToolTip = None, CustomIcon = None\<rparr>
      (Num 0) (Num 0)) = False
   \<and> icon (rawCompletionToTerminalCompletionItem ''/'' knownCodicons
      \<lparr>CompletionText = ''configuration'', ResultType = 13, ToolTip = None, CustomIcon = None\<rparr>
      (Num 0) (Num 0)) = Codicon_symbolKeyword"
  by (simp add: flags_rawCompletion getIcon_def pwshTypeToIconMap_def)

text \<open>
  C7: for a raw completion of directory kind, the label is the text followed by a path
  separator (the first backslash or slash of the text, else the separator of the host)
  exactly when the text does not end in a separator and is none of \<open>.\<close>, \<open>..\<close>,
  \<open>-\<close>, \<open>+\<close>; otherwise the label is the text. So a text that ends in a separator is
  left as it is, and, the separator of the host being a separator, normalizing the label
  again changes nothing.
\<close>

theorem C7_directory_suffix:
  assumes "ResultType r = 4"
  shows "label (rawCompletionToTerminalCompletionItem sep Codicon r i l) =
           (if \<not> endsInSeparator (CompletionText r) \<and>
               CompletionText r \<notin> {''.'', ''..'', ''-'', ''+''}
            then CompletionText r @
                 (case find isSeparator (CompletionText r) of Some c \<Rightarrow> [c] | None \<Rightarrow> sep)
            else CompletionText r) \<and>
         (endsInSeparator (CompletionText r) \<longrightarrow>
            label (rawCompletionToTerminalCompletionItem sep Codicon r i l) = CompletionText r) \<and>
         (endsInSeparator sep \<longrightarrow>
            label (rawCompletionToTerminalCompletionItem sep Codicon
                     (r\<lparr>CompletionText := label (rawCompletionToTerminalCompletionItem sep Codicon r i l)\<rparr>) i l)
            = label (rawCompletionToTerminalCompletionItem sep Codicon r i l))"
proof -
  let ?t = "CompletionText r"
  have one: "label (rawCompletionToTerminalCompletionItem sep Codicon r i l) =
           (if \<not> endsInSeparator ?t \<and> ?t \<notin> {''.'', ''..'', ''-'', ''+''}
            then ?t @ (case find isSeparator ?t of Some c \<Rightarrow> [c] | None \<Rightarrow> sep)
            else ?t)"
    using assms by (auto simp: label_rawCompletion)
  have app: "endsInSeparator (?t @ (case find isSeparator ?t of Some c \<Rightarrow> [c] | None \<Rightarrow> sep))"
    if "endsInSeparator sep"
    using that by (auto simp: endsInSeparator_def find_Some_iff split: option.splits)
  have three: "label (rawCompletionToTerminalCompletionItem sep Codicon
                     (r\<lparr>CompletionText := label (rawCompletionToTerminalCompletionItem sep Codicon r i l)\<rparr>) i l)
            = label (rawCompletionToTerminalCompletionItem sep Codicon r i l)"
    if "endsInSeparator sep"
    unfolding one using app[OF that] by (simp add: label_rawCompletion)
  show ?thesis using one three by simp
qed

text \<open>
  C7, witness: a directory \<open>src\<close> gets the separator, \<open>src/\<close> and \<open>..\<close> are kept.
\<close>

theorem C7_directory_suffix_witness:
  "label (rawCompletionToTerminalCompletionItem ''/'' knownCodicons
      \<lparr>CompletionText = ''src'', ResultType = 4, ToolTip = None, CustomIcon = None\<rparr> (Num 0) (Num 0)) = ''src/'' \<and>
   label (rawCompletionToTerminalCompletionItem ''/'' knownCodicons
      \<lparr>CompletionText = ''src/'', ResultType = 4, ToolTip = None, CustomIcon = None\<rparr> (Num 0) (Num 0)) = ''src/'' \<and>
   label (rawCompletionToTerminalCompletionItem ''/'' knownCodicons
      \<lparr>CompletionText = ''..'', ResultType = 4, ToolTip = None, CustomIcon = None\<rparr> (Num 0) (Num 0)) = ''..''"
  using C7_directory_suffix[of "\<lparr>CompletionText = ''src'', ResultType = 4, ToolTip = None, CustomIcon = None\<rparr>" "''/''" knownCodicons "Num 0" "Num 0"]
        C7_directory_suffix[of "\<lparr>CompletionText = ''src/'', ResultType = 4, ToolTip = None, CustomIcon = None\<rparr>" "''/''" knownCodicons "Num 0" "Num 0"]
        C7_directory_suffix[of "\<lparr>CompletionText = ''..'', ResultType = 4, ToolTip = None, CustomIcon = None\<rparr>" "''/''" knownCodicons "Num 0" "Num 0"]
  by (simp add: endsInSeparator_def isSeparator_def)

text \<open>
  C8: a raw completion of kind 2 whose text ends in a dot and two to four letters or digits
  (every text matching \<^verbatim>\<open>^[A-Za-z0-9_.]+\.[a-z0-9]{2,4}$\<close> does) becomes a file:
  \<open>isFile\<close> holds, \<open>isDirectory\<close> and \<open>isKeyword\<close> do not, and the icon is the one
  chosen for kind 2.
\<close>

theorem C8_executable_is_file:
  assumes "ResultType r = 2"
    and "hasExtension (CompletionText r) \<or> match (CompletionText r) rx_specExecutable \<noteq> None"
  shows "isFile (rawCompletionToTerminalCompletionItem sep Codicon r i l) \<and>
         \<not> isDirectory (rawCompletionToTerminalCompletionItem sep Codicon r i l) \<and>
         \<not> isKeyword (rawCompletionToTerminalCompletionItem sep Codicon r i l) \<and>
         icon (rawCompletionToTerminalCompletionItem sep Codicon r i l) =
           getIcon Codicon 2 (CustomIcon r)"
proof -
  have "hasExtension (CompletionText r)"
    using assms(2) match_specExecutable by blast
  then show ?thesis
    using assms(1) by (simp add: flags_rawCompletion)
qed

text \<open>
  C8, witness: \<open>git.exe\<close> of kind 2, by its extension and by the pattern of the
  specification.
\<close>

theorem C8_executable_is_file_witness:
  "isFile (rawCompletionToTerminalCompletionItem ''/'' knownCodicons
      \<lparr>CompletionText = ''git.exe'', ResultType = 2, ToolTip = None, CustomIcon = None\<rparr> (Num 0) (Num 3)) \<and>
   icon (rawCompletionToTerminalCompletionItem ''/'' knownCodicons
      \<lparr>CompletionText = ''git.exe'', ResultType = 2, ToolTip = None, CustomIcon = None\<rparr> (Num 0) (Num 3))
     = Codicon_symbolMethod"
proof -
  have "''git.exe'' = ''git'' @ CHR ''.'' # ''exe''" by simp
  then have h: "hasExtension ''git.exe''"
    unfolding hasExtension_def by (intro exI[of _ "''git''"] exI[of _ "''exe''"]) (simp add: isExtChar_def)
  show ?thesis
    using h spec_regex_example
      C8_executable_is_file[of "\<lparr>CompletionText = ''git.exe'', ResultType = 2, ToolTip = None, CustomIcon = None\<rparr>" "[CHR 0x5C]" knownCodicons "Num 0" "Num 3"]
      C8_executable_is_file[of "\<lparr>CompletionText = ''git.exe'', ResultType = 2, ToolTip = None, CustomIcon = None\<rparr>" "''/''" knownCodicons "Num 0" "Num 3"]
    by (simp add: getIcon_def pwshTypeToIconMap_def)
qed

subsection \<open>Decoding a batch\<close>

lemma asPwshCompletion_objectForm: "asPwshCompletion (objectForm r) = Some r"
  by (cases r) (simp add: asPwshCompletion_def objectForm_def split: option.splits)

lemma ofCompressed_tupleForm: "ofCompressed (tupleForm r) = Some r"
  by (cases r) (simp add: ofCompressed_def tupleForm_def elementAt_def split: option.splits)

lemma sequence_map_Some: "(\<And>x. f (g x) = Some x) \<Longrightarrow> sequence (map f (map g xs)) = Some xs"
  by (induction xs) simp_all

lemma parse_objectBatch:
  "parseCompletionsFromShell sep Codicon (JArr (map objectForm rs)) i l =
     Inr (map (\<lambda>e. rawCompletionToTerminalCompletionItem sep Codicon e i l) rs)"
proof (cases rs)
  case Nil
  then show ?thesis by (simp add: parseCompletionsFromShell_def falsy_def)
next
  case (Cons r rs')
  have "sequence (map asPwshCompletion (map objectForm rs)) = Some rs"
    by (rule sequence_map_Some) (rule asPwshCompletion_objectForm)
  then show ?thesis
    using Cons by (simp add: parseCompletionsFromShell_def falsy_def objectForm_def)
qed

lemma parse_tupleBatch:
  "parseCompletionsFromShell sep Codicon (JArr (map tupleForm rs)) i l =
     Inr (map (\<lambda>e. rawCompletionToTerminalCompletionItem sep Codicon e i l) rs)"
proof (cases rs)
  case Nil
  then show ?thesis by (simp add: parseCompletionsFromShell_def falsy_def)
next
  case (Cons r rs')
  have "sequence (map ofCompressed (map tupleForm rs)) = Some rs"
    by (rule sequence_map_Some) (rule ofCompressed_tupleForm)
  then show ?thesis
    using Cons by (simp add: parseCompletionsFromShell_def falsy_def tupleForm_def)
qed

lemma parse_single_object:
  "parseCompletionsFromShell sep Codicon (objectForm r) i l =
     Inr [rawCompletionToTerminalCompletionItem sep Codicon r i l]"
  using asPwshCompletion_objectForm[of r]
  by (simp add: parseCompletionsFromShell_def falsy_def objectForm_def)

lemma parse_single_tuple:
  "parseCompletionsFromShell sep Codicon (tupleForm r) i l =
     Inr [rawCompletionToTerminalCompletionItem sep Codicon r i l]"
  using ofCompressed_tupleForm[of r]
  by (simp add: parseCompletionsFromShell_def falsy_def tupleForm_def)

text \<open>
  C6: for every batch of logical completions and every replacement span, decoding the
  object-form encoding and decoding the tuple-form encoding give the same items, namely the
  normalization of each logical completion in order; the same holds for one record sent
  alone, as an object or as a tuple.
\<close>

theorem C6_format_equivalence:
  "parseCompletionsFromShell sep Codicon (JArr (map objectForm rs)) i l =
     parseCompletionsFromShell sep Codicon (JArr (map tupleForm rs)) i l \<and>
   parseCompletionsFromShell sep Codicon (JArr (map tupleForm rs)) i l =
     Inr (map (\<lambda>e. rawCompletionToTerminalCompletionItem sep Codicon e i l) rs) \<and>
   parseCompletionsFromShell sep Codicon (objectForm r) i l =
     parseCompletionsFromShell sep Codicon (tupleForm r) i l \<and>
   parseCompletionsFromShell sep Codicon (tupleForm r) i l =
     Inr [rawCompletionToTerminalCompletionItem sep Codicon r i l]"
  by (simp add: parse_objectBatch parse_tupleBatch parse_single_object parse_single_tuple)

subsection \<open>The request correlator\<close>

lemma notify_pending:
  assumes "completionsResolver a = Some p" "p < length (promises pr)" "promises pr ! p = Pending"
  shows "notifyCompletions result (a, pr) =
           (a\<lparr>completionsResolver := None\<rparr>, pr\<lparr>promises := (promises pr)[p := Resolved result]\<rparr>)"
  using assms by (simp add: notifyCompletions_def resolve_def)

lemma provideCompletions_promise:
  "provideCompletions h v (a, pr) = (p1, a1, pr1) \<Longrightarrow>
     p1 = length (promises pr) \<and> completionsResolver a1 = Some p1 \<and>
     promises pr1 = promises pr @ [Pending] \<and>
     cachedPwshCommands pr1 = cachedPwshCommands pr \<and> storage pr1 = storage pr"
  by (auto simp: provideCompletions_def waitForCompletions_def Let_def)

text \<open>
  C1, as stated, fails: a second request made while one is pending makes a second promise
  and stores its resolver in place of the first. Two requests in a row give the promises 0
  and 1, the stored resolver is that of promise 1, and the next inbound batch resolves
  promise 1 and leaves promise 0 pending.
\<close>

theorem C1_second_request_counterexample:
  "fst (provideCompletions exampleHost ''cd s'' (exampleAddon, exampleProcess)) = 0 \<and>
   completionsResolver (fst (snd (provideCompletions exampleHost ''cd s''
      (exampleAddon, exampleProcess)))) = Some 0 \<and>
   fst (provideCompletions exampleHost ''cd s''
      (snd (provideCompletions exampleHost ''cd s'' (exampleAddon, exampleProcess)))) = 1 \<and>
   completionsResolver (fst (snd (provideCompletions exampleHost ''cd s''
      (snd (provideCompletions exampleHost ''cd s'' (exampleAddon, exampleProcess)))))) = Some 1 \<and>
   promises (snd (snd (handleCompletionsSequence exampleHost exampleTerminal
      ''Completions;3;1;4;[]'' ''Completions'' [''3'', ''1'', ''4'', ''[]'']
      (snd (provideCompletions exampleHost ''cd s''
         (snd (provideCompletions exampleHost ''cd s'' (exampleAddon, exampleProcess)))))))) =
     [Pending, Resolved (Some [])]"
  by code_simp

text \<open>
  C1, amended: when a request is made while the resolver of a pending promise \<open>p0\<close> is
  stored, a new promise \<open>p1\<close> is made and its resolver replaces the stored one (the last
  writer wins); the next notification fulfils \<open>p1\<close>, clears the slot and leaves \<open>p0\<close>
  as it was.
\<close>

theorem C1_second_request_replaces_resolver:
  assumes "completionsResolver a = Some p0" and "p0 < length (promises pr)"
    and "provideCompletions h v (a, pr) = (p1, a1, pr1)"
    and "notifyCompletions result (a1, pr1) = (a2, pr2)"
  shows "p1 \<noteq> p0 \<and> p1 = length (promises pr) \<and>
         completionsResolver a1 = Some p1 \<and>
         promises pr1 = promises pr @ [Pending] \<and>
         completionsResolver a2 = None \<and>
         promises pr2 ! p1 = Resolved result \<and>
         promises pr2 ! p0 = promises pr ! p0"
proof -
  note pc = provideCompletions_promise[OF assms(3)]
  have "p1 < length (promises pr1)" "promises pr1 ! p1 = Pending"
    using pc by (simp_all add: nth_append)
  from notify_pending[OF _ this, of a1 result] pc assms(4)
  have "a2 = a1\<lparr>completionsResolver := None\<rparr>"
    and "pr2 = pr1\<lparr>promises := (promises pr1)[p1 := Resolved result]\<rparr>"
    by simp_all
  then show ?thesis
    using pc assms(2) by (simp add: nth_append)
qed

text \<open>
  C1, witness: a request made while promise 0 is pending stores the resolver of promise 1;
  the notification resolves promise 1 and promise 0 stays pending.
\<close>

theorem C1_second_request_replaces_resolver_witness:
  "completionsResolver (fst (snd (provideCompletions exampleHost ''cd s''
      (exampleAddon\<lparr>completionsResolver := Some 0\<rparr>, exampleProcess\<lparr>promises := [Pending]\<rparr>))))
     = Some 1 \<and>
   promises (snd (notifyCompletions (Some []) (snd (provideCompletions exampleHost ''cd s''
      (exampleAddon\<lparr>completionsResolver := Some 0\<rparr>, exampleProcess\<lparr>promises := [Pending]\<rparr>))))) ! 1
     = Resolved (Some []) \<and>
   promises (snd (notifyCompletions (Some []) (snd (provideCompletions exampleHost ''cd s''
      (exampleAddon\<lparr>completionsResolver := Some 0\<rparr>, exampleProcess\<lparr>promises := [Pending]\<rparr>))))) ! 0
     = Pending"
proof -
  let ?a = "exampleAddon\<lparr>completionsResolver := Some 0\<rparr>"
  let ?pr = "exampleProcess\<lparr>promises := [Pending]\<rparr>"
  let ?X = "provideCompletions exampleHost ''cd s'' (?a, ?pr)"
  let ?Y = "notifyCompletions (Some []) (snd ?X)"
  have h1: "completionsResolver ?a = Some 0" by simp
  have h2: "0 < length (promises ?pr)" by simp
  have h3: "?X = (fst ?X, fst (snd ?X), snd (snd ?X))" by simp
  have h4: "notifyCompletions (Some []) (fst (snd ?X), snd (snd ?X)) = (fst ?Y, snd ?Y)" by simp
  note c = C1_second_request_replaces_resolver[OF h1 h2 h3 h4]
  have p1: "fst ?X = 1" using c by simp
  show ?thesis using c unfolding p1 by simp
qed

subsection \<open>Inbound completion batches\<close>

lemma handle_guard:
  assumes "element term = None \<or> promptInputModel a = None \<or> \<not> enableWidget a \<or>
           (\<exists>el. element term = Some el \<and> \<not> isAncestorOfActiveElement h el)"
  shows "handleCompletionsSequence h term data command args (a, pr) =
           (case notifyCompletions None (a\<lparr>fired := fired a @ [DidReceiveCompletions]\<rparr>, pr) of
              (a', pr') \<Rightarrow> (Returned, a', pr'))"
  using assms by (auto simp: handleCompletionsSequence_def Let_def split: option.splits)

text \<open>
  C9: when a batch arrives while a request is pending and the terminal is not attached, or
  there is no prompt input model, or the terminal is not focused, the handler returns, the
  pending promise is resolved with \<^verbatim>\<open>undefined\<close> (not with the empty list), and no
  resolver is stored any more.
\<close>

theorem C9_no_active_context_resolves_undefined:
  assumes "completionsResolver a = Some p" and "p < length (promises pr)"
    and "promises pr ! p = Pending"
    and "element term = None \<or> promptInputModel a = None \<or> \<not> enableWidget a \<or>
         (\<exists>el. element term = Some el \<and> \<not> isAncestorOfActiveElement h el)"
  shows "\<exists>a' pr'. handleCompletionsSequence h term data command args (a, pr) = (Returned, a', pr') \<and>
           completionsResolver a' = None \<and>
           promises pr' = (promises pr)[p := Resolved None] \<and>
           promises pr' ! p = Resolved None \<and>
           promises pr' ! p \<noteq> Resolved (Some [])"
proof -
  let ?a = "a\<lparr>fired := fired a @ [DidReceiveCompletions]\<rparr>"
  have "notifyCompletions None (?a, pr) =
          (?a\<lparr>completionsResolver := None\<rparr>, pr\<lparr>promises := (promises pr)[p := Resolved None]\<rparr>)"
    using assms(1-3) by (intro notify_pending) simp_all
  then show ?thesis
    using handle_guard[OF assms(4), of data command args pr] assms(2) by simp
qed

text \<open>
  C9, witness: a batch for a terminal that is not attached, with promise 0 pending.
\<close>

theorem C9_no_active_context_resolves_undefined_witness:
  "handleCompletionsSequence exampleHost \<lparr>element = None\<rparr> ''Completions;3;1;4;[]'' ''Completions''
      [''3'', ''1'', ''4'', ''[]'']
      (exampleAddon\<lparr>completionsResolver := Some 0\<rparr>, exampleProcess\<lparr>promises := [Pending]\<rparr>)
   = (Returned,
      exampleAddon\<lparr>completionsResolver := None, fired := [DidReceiveCompletions]\<rparr>,
      exampleProcess\<lparr>promises := [Resolved None]\<rparr>)"
proof -
  let ?a = "exampleAddon\<lparr>completionsResolver := Some 0\<rparr>"
  let ?pr = "exampleProcess\<lparr>promises := [Pending]\<rparr>"
  let ?t = "\<lparr>element = None\<rparr>"
  have h1: "completionsResolver ?a = Some 0" by simp
  have h2: "0 < length (promises ?pr)" by simp
  have h3: "promises ?pr ! 0 = Pending" by simp
  have h4: "element ?t = None \<or> promptInputModel ?a = None \<or> \<not> enableWidget ?a \<or>
         (\<exists>el. element ?t = Some el \<and> \<not> isAncestorOfActiveElement exampleHost el)" by simp
  have ev: "handleCompletionsSequence exampleHost ?t ''Completions;3;1;4;[]'' ''Completions''
      [''3'', ''1'', ''4'', ''[]''] (?a, ?pr)
   = (Returned,
      exampleAddon\<lparr>completionsResolver := None, fired := [DidReceiveCompletions]\<rparr>,
      exampleProcess\<lparr>promises := [Resolved None]\<rparr>)"
    by (simp add: handleCompletionsSequence_def notifyCompletions_def resolve_def
        exampleAddon_def exampleProcess_def)
  show ?thesis
    using C9_no_active_context_resolves_undefined[OF h1 h2 h3 h4, of "''Completions;3;1;4;[]''" "''Completions''" "[''3'', ''1'', ''4'', ''[]'']"] ev
    by simp
qed

lemma parse_undefined: "parseCompletionsFromShell sep Codicon JUndefined i l = Inr []"
  by (simp add: parseCompletionsFromShell_def falsy_def)

lemma handle_contextual:
  assumes "element term = Some el" and "enableWidget a" and "promptInputModel a = Some model"
    and "isAncestorOfActiveElement h el"
    and "\<not> isGlobalCommandOf (leadingLineOf model (cursorIndexDelta a))"
    and "args = arg0 # arg1 # arg2 # rest"
    and "(if payloadOf data command arg0 arg1 arg2 = [] then Some JUndefined
          else JSON_parse h (payloadOf data command arg0 arg1 arg2)) = Some raw"
    and "parseCompletionsFromShell (hostSep h) (hostCodicon h) raw
           (parseInt (Some arg0)) (parseInt (Some arg1)) = Inr items"
  shows "handleCompletionsSequence h term data command args (a, pr) =
     deliverCompletions h False model (parseInt (Some arg0)) (parseInt (Some arg1)) items
       (a\<lparr>fired := fired a @ [DidReceiveCompletions],
          currentPromptInputState := Some model,
          leadingLineContent := Some (prefix model)\<rparr>, pr)"
proof -
  let ?payload = "drop (length command + length arg0 + length arg1 + length arg2 + 4) data"
  have args: "arg args 0 = Some arg0" "arg args 1 = Some arg1" "arg args 2 = Some arg2"
    "args \<noteq> []"
    using assms(6) by (simp_all add: arg_def)
  show ?thesis
  proof (cases "?payload = []")
    case True
    then have "raw = JUndefined"
      using assms(7) by (simp add: payloadOf_def)
    then show ?thesis
      using assms(1-5,8) args True
      by (simp add: handleCompletionsSequence_def Let_def)
  next
    case False
    then have "JSON_parse h ?payload = Some raw"
      using assms(7) by (simp add: payloadOf_def)
    then show ?thesis
      using assms(1-5,8) args False
      by (simp add: handleCompletionsSequence_def Let_def)
  qed
qed

lemma deliver_contextual:
  assumes "completionsResolver a = Some p" "p < length (promises pr)" "promises pr ! p = Pending"
  shows "deliverCompletions h False model rIndex rLength items (a, pr) =
     (let completions =
            (case mostRecentCompletion a of
               Some m \<Rightarrow> if isDirectory m \<and> list_all isDirectory items then items @ [m] else items
             | None \<Rightarrow> items);
          a' = a\<lparr>mostRecentCompletion := None,
                 cursorIndexDelta := minus_number (Num (cursorIndex model)) (plus_number rIndex rLength),
                 isFilteringDirectories := list_ex isDirectory completions,
                 completionsResolver := None\<rparr>
      in (Returned,
          (if list_ex isDirectory completions
           then a'\<lparr>pathSeparator :=
                  (case find isDirectory completions of
                     Some c \<Rightarrow> (case match (label c) rx_sep of Some m \<Rightarrow> m | None \<Rightarrow> hostSep h)
                   | None \<Rightarrow> hostSep h)\<rparr>
           else a'),
          pr\<lparr>promises := (promises pr)[p := Resolved (Some completions)]\<rparr>))"
  using assms
  by (simp add: deliverCompletions_def Let_def notifyCompletions_def resolve_def)

text \<open>
  C10: when a contextual batch arrives at a focused terminal while a request is pending and
  the most recent completion is a directory, the promise is resolved with the decoded items
  followed by that completion if all decoded items are directories, and with the decoded
  items alone otherwise; so an empty batch resolves with the one-element list of the
  carried completion. In both cases the most recent completion is cleared.
\<close>

theorem C10_sticky_directory_on_empty_batch:
  assumes "element term = Some el" and "enableWidget a" and "promptInputModel a = Some model"
    and "isAncestorOfActiveElement h el"
    and "\<not> isGlobalCommandOf (leadingLineOf model (cursorIndexDelta a))"
    and "args = arg0 # arg1 # arg2 # rest"
    and "(if payloadOf data command arg0 arg1 arg2 = [] then Some JUndefined
          else JSON_parse h (payloadOf data command arg0 arg1 arg2)) = Some raw"
    and "parseCompletionsFromShell (hostSep h) (hostCodicon h) raw
           (parseInt (Some arg0)) (parseInt (Some arg1)) = Inr items"
    and "mostRecentCompletion a = Some m" and "isDirectory m"
    and "completionsResolver a = Some p" and "p < length (promises pr)"
    and "promises pr ! p = Pending"
  shows "\<exists>a' pr'. handleCompletionsSequence h term data command args (a, pr) = (Returned, a', pr') \<and>
           promises pr' ! p =
             Resolved (Some (if list_all isDirectory items then items @ [m] else items)) \<and>
           (items = [] \<longrightarrow> promises pr' ! p = Resolved (Some [m])) \<and>
           mostRecentCompletion a' = None \<and>
           completionsResolver a' = None"
proof -
  let ?a = "a\<lparr>fired := fired a @ [DidReceiveCompletions],
          currentPromptInputState := Some model,
          leadingLineContent := Some (prefix model)\<rparr>"
  have "handleCompletionsSequence h term data command args (a, pr) =
     deliverCompletions h False model (parseInt (Some arg0)) (parseInt (Some arg1)) items (?a, pr)"
    by (rule handle_contextual[OF assms(1-8)])
  moreover have "completionsResolver ?a = Some p" "mostRecentCompletion ?a = Some m"
    using assms(9,11) by simp_all
  ultimately show ?thesis
    using assms(10,12,13)
    by (simp add: deliver_contextual[where p = p] Let_def)
qed

lemma example_contextual:
  "\<not> isGlobalCommandOf (leadingLineOf examplePrompt (Num 0))"
  by (simp add: isGlobalCommandOf_def leadingLineOf_def examplePrompt_def substring_def)

text \<open>
  C10, witness: the empty batch \<open>[]\<close> after the directory \<open>src/\<close>.
\<close>

theorem C10_sticky_directory_on_empty_batch_witness:
  \<open>promises (snd (snd (handleCompletionsSequence exampleHost exampleTerminal
       ''Completions;3;1;4;[]'' ''Completions'' [''3'', ''1'', ''4'', ''[]'']
       (exampleAddon\<lparr>mostRecentCompletion := Some srcDirectory, completionsResolver := Some 0\<rparr>,
        exampleProcess\<lparr>promises := [Pending]\<rparr>)))) ! 0
     = Resolved (Some [srcDirectory])\<close>
proof -
  let ?a = "exampleAddon\<lparr>mostRecentCompletion := Some srcDirectory, completionsResolver := Some 0\<rparr>"
  let ?pr = "exampleProcess\<lparr>promises := [Pending]\<rparr>"
  have payload: "payloadOf ''Completions;3;1;4;[]'' ''Completions'' ''3'' ''1'' ''4'' = ''[]''"
    by (simp add: payloadOf_def)
  have parse: "jsonParse ''[]'' = Some (JArr [])"
    by code_simp
  have h1: "element exampleTerminal = Some 1" by (simp add: exampleTerminal_def)
  have h2: "enableWidget ?a" by (simp add: exampleAddon_def)
  have h3: "promptInputModel ?a = Some examplePrompt" by (simp add: exampleAddon_def)
  have h4: "isAncestorOfActiveElement exampleHost 1" by (simp add: exampleHost_def)
  have h5: "\<not> isGlobalCommandOf (leadingLineOf examplePrompt (cursorIndexDelta ?a))"
    using example_contextual by (simp add: exampleAddon_def)
  have h6: "[''3'', ''1'', ''4'', ''[]''] = ''3'' # ''1'' # ''4'' # [''[]'']" by simp
  have h7: "(if payloadOf ''Completions;3;1;4;[]'' ''Completions'' ''3'' ''1'' ''4'' = []
             then Some JUndefined
             else JSON_parse exampleHost
                    (payloadOf ''Completions;3;1;4;[]'' ''Completions'' ''3'' ''1'' ''4''))
            = Some (JArr [])"
    unfolding payload using parse by (simp add: exampleHost_def)
  have h8: "parseCompletionsFromShell (hostSep exampleHost) (hostCodicon exampleHost) (JArr [])
              (parseInt (Some ''3'')) (parseInt (Some ''1'')) = Inr []"
    by (simp add: parseCompletionsFromShell_def falsy_def)
  have h9: "mostRecentCompletion ?a = Some srcDirectory" by simp
  have h10: "isDirectory srcDirectory" by (simp add: srcDirectory_def)
  have h11: "completionsResolver ?a = Some 0" by simp
  have h12: "0 < length (promises ?pr)" by simp
  have h13: "promises ?pr ! 0 = Pending" by simp
  from C10_sticky_directory_on_empty_batch[OF h1 h2 h3 h4 h5 h6 h7 h8 h9 h10 h11 h12 h13]
  show ?thesis by auto
qed

subsection \<open>The replacement window of a contextual batch\<close>

lemma split_append:
  "d \<notin> set x \<Longrightarrow> split d (x @ d # y) = x # split d y"
  by (induction x) auto

lemma split_completionsMessage:
  assumes "CHR '';'' \<notin> set arg0" "CHR '';'' \<notin> set arg1" "CHR '';'' \<notin> set arg2"
  shows "split CHR '';'' (completionsMessage arg0 arg1 arg2 payload) =
           ''Completions'' # arg0 # arg1 # arg2 # split CHR '';'' payload"
proof -
  have c: "CHR '';'' \<notin> set ''Completions''" by simp
  have "completionsMessage arg0 arg1 arg2 payload =
          ''Completions'' @ CHR '';'' # (arg0 @ CHR '';'' # (arg1 @ CHR '';'' # (arg2 @ CHR '';'' # payload)))"
    by (simp add: completionsMessage_def)
  then show ?thesis
    by (simp only: split_append[OF c] split_append[OF assms(1)] split_append[OF assms(2)]
        split_append[OF assms(3)])
qed

lemma payloadOf_completionsMessage:
  "payloadOf (completionsMessage arg0 arg1 arg2 payload) ''Completions'' arg0 arg1 arg2 = payload"
proof -
  let ?P = "''Completions'' @ '';'' @ arg0 @ '';'' @ arg1 @ '';'' @ arg2 @ '';''"
  have msg: "completionsMessage arg0 arg1 arg2 payload = ?P @ payload"
    by (simp add: completionsMessage_def)
  have len: "length ''Completions'' + length arg0 + length arg1 + length arg2 + 4 = length ?P"
    by simp
  have "drop (length ?P) (?P @ payload) = payload"
    by (rule append_eq_conv_conj[THEN iffD1, THEN conjunct2, symmetric, OF refl])
  then show ?thesis
    unfolding payloadOf_def msg len .
qed

lemma parse_span:
  assumes "parseCompletionsFromShell sep Codicon raw i l = Inr items"
  shows "\<forall>c\<in>set items. replacementIndex c = i \<and> replacementLength c = l"
proof -
  have "\<exists>rs. items = map (\<lambda>e. rawCompletionToTerminalCompletionItem sep Codicon e i l) rs"
    using assms
    by (auto simp: parseCompletionsFromShell_def Let_def split: if_splits option.splits)
  then show ?thesis
    by (auto simp: rawCompletionToTerminalCompletionItem_def Let_def)
qed

text \<open>
  C2, as stated, fails: for the contextual message \<^verbatim>\<open>Completions;3;1;4;[["src",4]]\<close> the
  item handed to the pending request has the replacement index 3 and the replacement length
  1, the values of the first and second argument, not those of the second and third.
\<close>

theorem C2_window_counterexample:
  \<open>split CHR '';'' ''Completions;3;1;4;[["src",4]]'' =
      [''Completions'', ''3'', ''1'', ''4'', ''[["src",4]]''] \<and>
   promises (snd (snd (handleCompletionsSequence exampleHost exampleTerminal
      ''Completions;3;1;4;[["src",4]]'' ''Completions'' [''3'', ''1'', ''4'', ''[["src",4]]'']
      (exampleAddon\<lparr>completionsResolver := Some 0\<rparr>, exampleProcess\<lparr>promises := [Pending]\<rparr>))))
     = [Resolved (Some [srcDirectory])] \<and>
   replacementIndex srcDirectory = Num 3 \<and>
   replacementIndex srcDirectory \<noteq> parseInt (Some ''1'') \<and>
   replacementLength srcDirectory = Num 1 \<and>
   replacementLength srcDirectory \<noteq> parseInt (Some ''4'')\<close>
  by code_simp

text \<open>
  C2, amended: for a contextual message \<^verbatim>\<open>Completions;<arg0>;<arg1>;<arg2>;<payload>\<close>
  the replacement index is \<^verbatim>\<open>parseInt\<close> of the first argument and the replacement
  length is \<^verbatim>\<open>parseInt\<close> of the second: the decoded items handed to the pending
  request carry them, and the cursor index delta is computed from them. The third argument
  is the unused one: only its length is used to find the payload, and the handler does the
  same for any other third argument.
\<close>

theorem C2_window_from_first_two_arguments:
  assumes "element term = Some el" and "enableWidget a" and "promptInputModel a = Some model"
    and "isAncestorOfActiveElement h el"
    and "\<not> isGlobalCommandOf (leadingLineOf model (cursorIndexDelta a))"
    and "CHR '';'' \<notin> set arg0" and "CHR '';'' \<notin> set arg1" and "CHR '';'' \<notin> set arg2"
    and "(if payload = [] then Some JUndefined else JSON_parse h payload) = Some raw"
    and "parseCompletionsFromShell (hostSep h) (hostCodicon h) raw
           (parseInt (Some arg0)) (parseInt (Some arg1)) = Inr items"
    and "completionsResolver a = Some p" and "p < length (promises pr)"
    and "promises pr ! p = Pending"
    and "split CHR '';'' (completionsMessage arg0 arg1 arg2 payload) = command # args"
  shows "command = ''Completions'' \<and> take 3 args = [arg0, arg1, arg2] \<and>
         (\<exists>a' pr' completions.
            handleCompletionsSequence h term (completionsMessage arg0 arg1 arg2 payload)
              command args (a, pr) = (Returned, a', pr') \<and>
            promises pr' ! p = Resolved (Some completions) \<and>
            take (length items) completions = items \<and>
            (\<forall>c\<in>set items. replacementIndex c = parseInt (Some arg0) \<and>
                             replacementLength c = parseInt (Some arg1)) \<and>
            cursorIndexDelta a' =
              minus_number (Num (cursorIndex model))
                (plus_number (parseInt (Some arg0)) (parseInt (Some arg1)))) \<and>
         (\<forall>other. CHR '';'' \<notin> set other \<longrightarrow>
            handleCompletionsSequence h term (completionsMessage arg0 arg1 other payload)
              command (tl (split CHR '';'' (completionsMessage arg0 arg1 other payload))) (a, pr) =
            handleCompletionsSequence h term (completionsMessage arg0 arg1 arg2 payload)
              command args (a, pr))"
proof -
  let ?a = "a\<lparr>fired := fired a @ [DidReceiveCompletions],
          currentPromptInputState := Some model,
          leadingLineContent := Some (prefix model)\<rparr>"
  let ?D = "deliverCompletions h False model (parseInt (Some arg0)) (parseInt (Some arg1)) items (?a, pr)"
  have parts: "command = ''Completions''" "args = arg0 # arg1 # arg2 # split CHR '';'' payload"
    using assms(14) split_completionsMessage[OF assms(6-8), of payload] by simp_all
  have run: "handleCompletionsSequence h term (completionsMessage arg0 arg1 x payload)
               ''Completions'' (arg0 # arg1 # x # split CHR '';'' payload) (a, pr) = ?D" for x
  proof -
    have "(if payloadOf (completionsMessage arg0 arg1 x payload) ''Completions'' arg0 arg1 x = []
           then Some JUndefined
           else JSON_parse h
                  (payloadOf (completionsMessage arg0 arg1 x payload) ''Completions'' arg0 arg1 x))
          = Some raw"
      unfolding payloadOf_completionsMessage by (rule assms(9))
    then show ?thesis
      by (rule handle_contextual[OF assms(1-5) refl _ assms(10)])
  qed
  have res: "completionsResolver ?a = Some p" using assms(11) by simp
  have span: "\<forall>c\<in>set items. replacementIndex c = parseInt (Some arg0) \<and>
                             replacementLength c = parseInt (Some arg1)"
    by (rule parse_span[OF assms(10)])
  have first: "\<exists>a' pr' completions.
            handleCompletionsSequence h term (completionsMessage arg0 arg1 arg2 payload)
              command args (a, pr) = (Returned, a', pr') \<and>
            promises pr' ! p = Resolved (Some completions) \<and>
            take (length items) completions = items \<and>
            (\<forall>c\<in>set items. replacementIndex c = parseInt (Some arg0) \<and>
                             replacementLength c = parseInt (Some arg1)) \<and>
            cursorIndexDelta a' =
              minus_number (Num (cursorIndex model))
                (plus_number (parseInt (Some arg0)) (parseInt (Some arg1)))"
    unfolding parts run deliver_contextual[OF res assms(12,13)]
    using span assms(12) by (simp add: Let_def split: option.splits)
  have third: "handleCompletionsSequence h term (completionsMessage arg0 arg1 other payload)
              command (tl (split CHR '';'' (completionsMessage arg0 arg1 other payload))) (a, pr) =
            handleCompletionsSequence h term (completionsMessage arg0 arg1 arg2 payload)
              command args (a, pr)" if "CHR '';'' \<notin> set other" for other
    unfolding parts split_completionsMessage[OF assms(6,7) that] list.sel run ..
  show ?thesis
    using parts first third by simp
qed

text \<open>
  C2, witness: the message \<^verbatim>\<open>Completions;3;1;4;[["src",4]]\<close> with the input \<open>cd s\<close>
  and the cursor at 4.
\<close>

theorem C2_window_from_first_two_arguments_witness:
  \<open>fst (handleCompletionsSequence exampleHost exampleTerminal
          (completionsMessage ''3'' ''1'' ''4'' ''[["src",4]]'') ''Completions''
          [''3'', ''1'', ''4'', ''[["src",4]]'']
          (exampleAddon\<lparr>completionsResolver := Some 0\<rparr>, exampleProcess\<lparr>promises := [Pending]\<rparr>))
     = Returned \<and>
   cursorIndexDelta (fst (snd (handleCompletionsSequence exampleHost exampleTerminal
          (completionsMessage ''3'' ''1'' ''4'' ''[["src",4]]'') ''Completions''
          [''3'', ''1'', ''4'', ''[["src",4]]'']
          (exampleAddon\<lparr>completionsResolver := Some 0\<rparr>, exampleProcess\<lparr>promises := [Pending]\<rparr>))))
     = Num 0\<close>
proof -
  let ?a = "exampleAddon\<lparr>completionsResolver := Some 0\<rparr>"
  let ?pr = "exampleProcess\<lparr>promises := [Pending]\<rparr>"
  let ?payload = \<open>''[["src",4]]''\<close>
  let ?raw = "JArr [JArr [JStr ''src'', JNum 4]]"
  have h1: "element exampleTerminal = Some 1" by (simp add: exampleTerminal_def)
  have h2: "enableWidget ?a" by (simp add: exampleAddon_def)
  have h3: "promptInputModel ?a = Some examplePrompt" by (simp add: exampleAddon_def)
  have h4: "isAncestorOfActiveElement exampleHost 1" by (simp add: exampleHost_def)
  have h5: "\<not> isGlobalCommandOf (leadingLineOf examplePrompt (cursorIndexDelta ?a))"
    using example_contextual by (simp add: exampleAddon_def)
  have h6: "CHR '';'' \<notin> set ''3''" and h7: "CHR '';'' \<notin> set ''1''"
    and h8: "CHR '';'' \<notin> set ''4''" by simp_all
  have "jsonParse ?payload = Some ?raw" by code_simp
  then have h9: "(if ?payload = [] then Some JUndefined else JSON_parse exampleHost ?payload)
                 = Some ?raw"
    by (simp add: exampleHost_def)
  have h10: "parseCompletionsFromShell (hostSep exampleHost) (hostCodicon exampleHost) ?raw
               (parseInt (Some ''3'')) (parseInt (Some ''1'')) = Inr [srcDirectory]"
    by code_simp
  have h11: "completionsResolver ?a = Some 0" by simp
  have h12: "0 < length (promises ?pr)" by simp
  have h13: "promises ?pr ! 0 = Pending" by simp
  have h14: "split CHR '';'' (completionsMessage ''3'' ''1'' ''4'' ?payload) =
               ''Completions'' # [''3'', ''1'', ''4'', ?payload]"
    by code_simp
  have i: "parseInt (Some ''3'') = Num 3" "parseInt (Some ''1'') = Num 1" by code_simp+
  from C2_window_from_first_two_arguments[OF h1 h2 h3 h4 h5 h6 h7 h8 h9 h10 h11 h12 h13 h14]
  show ?thesis
    unfolding i by (auto simp: examplePrompt_def)
qed

subsection \<open>Construction\<close>

text \<open>
  C3, as stated, fails: with a stored text that the decoder rejects, the constructor throws
  the decoder's error.
\<close>

theorem C3_unparsable_cache_counterexample:
  "fst (constructor exampleHost None (Some PowerShell) None staleProcess) = Inl SyntaxError"
  by code_simp

text \<open>
  C3, amended: when no commands are provided and the stored value is rejected by the
  decoder, the \<^verbatim>\<open>SyntaxError\<close> of the decoder leaves the constructor, so construction
  fails; the cache is empty and the storage is untouched.
\<close>

theorem C3_unparsable_cache_throws:
  assumes "shellType = None \<or> shellType = Some PowerShell"
    and "providedPwshCommands = None \<or> providedPwshCommands = Some []"
    and "storage pr CachedPwshCommandsStorageKey = Some config"
    and "JSON_parse h config = None"
  shows "fst (constructor h providedPwshCommands shellType caps pr) = Inl SyntaxError \<and>
         cachedPwshCommands (snd (constructor h providedPwshCommands shellType caps pr)) = [] \<and>
         storage (snd (constructor h providedPwshCommands shellType caps pr)) = storage pr"
  using assms by (auto simp: constructor_def Let_def)

text \<open>
  C3, witness: construction over the storage that holds a truncated text.
\<close>

theorem C3_unparsable_cache_throws_witness:
  "fst (constructor exampleHost None (Some PowerShell) None staleProcess) = Inl SyntaxError \<and>
   cachedPwshCommands (snd (constructor exampleHost None (Some PowerShell) None staleProcess)) = []"
proof -
  have h1: "Some PowerShell = None \<or> Some PowerShell = Some PowerShell" by simp
  have h2: "(None :: TerminalCompletionItem list option) = None \<or>
            (None :: TerminalCompletionItem list option) = Some []" by simp
  have h3: "storage staleProcess CachedPwshCommandsStorageKey = Some ''[{''"
    by (simp add: staleProcess_def)
  have "jsonParse ''[{'' = None" by code_simp
  then have h4: "JSON_parse exampleHost ''[{'' = None" by (simp add: exampleHost_def)
  from C3_unparsable_cache_throws[OF h1 h2 h3 h4]
  show ?thesis by simp
qed

end
